theory Spec2Isabelle
  imports Complex_Main
begin

section \<open>Data model\<close>

text \<open>
  The development covers the two files that hold the session logic of the frontend:
  \<^verbatim>\<open>services/api.js\<close> (the axios instance \<^verbatim>\<open>api\<close> with its request and response
  interceptors, used by every domain service) and \<^verbatim>\<open>contexts/AuthContext.js\<close> (the
  \<^verbatim>\<open>AuthProvider\<close> component: \<^verbatim>\<open>initAuth\<close>, \<^verbatim>\<open>login\<close>, \<^verbatim>\<open>register\<close>, \<^verbatim>\<open>logout\<close>,
  \<^verbatim>\<open>refreshAccessToken\<close> and the response interceptor it registers on the global axios).
  In this copy of the repository the text of \<^verbatim>\<open>AuthContext.js\<close> is the second part of
  \<^verbatim>\<open>contexts/ThemeContext.js\<close>, and the text of \<^verbatim>\<open>api.js\<close> follows that of \<^verbatim>\<open>App.js\<close>.

  The browser, the axios library, \<^verbatim>\<open>jwt_decode\<close> and the remote server are the environment.
  The server is a state machine that answers each request it receives, \<^verbatim>\<open>jwt_decode\<close> is a
  partial function, \<^verbatim>\<open>localStorage\<close> is a key-value map that throws on every access when
  the browser denies storage. Response bodies are objects whose fields, when read, are
  strings (the endpoint contracts); a decoded token carries the four claims the code reads.

  Left out: the \<^verbatim>\<open>baseURL\<close> of \<^verbatim>\<open>api\<close> (a request is identified by the \<^verbatim>\<open>url\<close> of its
  configuration), the HTTP method, and the default \<^verbatim>\<open>Authorization\<close> header that a third effect
  of \<^verbatim>\<open>AuthProvider\<close> keeps on the global axios (requests on the global axios are logged with
  the headers their call site gives them). A state setter of React takes effect at once.
\<close>

record user_record =
  user_id :: string
  user_email :: string
  user_name :: string

record claims =
  claim_sub :: string
  claim_email :: string
  claim_name :: string
  claim_exp :: int

record body =
  access_token :: string
  refresh_token :: string
  body_user :: "user_record option"
  body_error :: "string option"

record response =
  status :: nat
  data :: body

text \<open>An axios request configuration; \<open>retry\<close> is the \<^verbatim>\<open>_retry\<close> mark of the interceptors.\<close>

record config =
  url :: string
  headers :: "string \<rightharpoonup> string"
  req_data :: "(string \<times> string) list"
  retry :: bool

text \<open>What the network delivers for a request: a response, or nothing (transport failure).\<close>

datatype raw = Response response | NoResponse

text \<open>
  What the code can throw or reject with: the error of a failed request, the
  \<^verbatim>\<open>Error\<close> that \<^verbatim>\<open>refreshAccessToken\<close> throws without a refresh token, the error of
  \<^verbatim>\<open>jwt_decode\<close> on a malformed token, and the error of a denied storage access. The second
  and the third are caught where they are thrown and never looked at.
\<close>

datatype js_error =
    AxiosError config "response option"
  | Error string
  | InvalidTokenError
  | StorageUnavailable

text \<open>
  A request that has left the client: its configuration, the answer in transit, and whether
  the \<^verbatim>\<open>AuthProvider\<close> response interceptor was registered on the global axios when the
  request was created (axios builds the interceptor chain of a request at creation).
\<close>

datatype inflight = InFlight config raw bool

record 'sv env =
  server :: "'sv \<Rightarrow> config \<Rightarrow> raw \<times> 'sv"
  jwt_decode :: "string \<Rightarrow> claims option"

text \<open>
  The client state: the browser's storage, the four \<^verbatim>\<open>useState\<close> cells of \<^verbatim>\<open>AuthProvider\<close>,
  whether its response interceptor is registered, \<^verbatim>\<open>window.location.href\<close>, \<^verbatim>\<open>Date.now()\<close>
  in milliseconds, the server's state, the requests dispatched so far, and the \<^verbatim>\<open>logout()\<close>
  calls started without \<^verbatim>\<open>await\<close> whose request is still in flight.
\<close>

record 'sv world =
  storage_ok :: bool
  localStorage :: "string \<rightharpoonup> string"
  user :: "user_record option"
  isAuthenticated :: bool
  loading :: bool
  error :: "string option"
  interceptor :: bool
  href :: string
  date_now :: int
  server_state :: 'sv
  sent :: "config list"
  pending :: "inflight list"

type_synonym outcome = "js_error + response"

section \<open>Browser and axios primitives\<close>

text \<open>JavaScript truthiness of a \<^verbatim>\<open>getItem\<close> result: \<^verbatim>\<open>null\<close> and the empty string are falsy.\<close>

fun truthy :: "string option \<Rightarrow> bool" where
  "truthy None = False"
| "truthy (Some s) = (s \<noteq> [])"

text \<open>A \<^verbatim>\<open>getItem\<close> result inside a template literal: \<^verbatim>\<open>null\<close> prints as \<^verbatim>\<open>null\<close>.\<close>

fun template :: "string option \<Rightarrow> string" where
  "template None = ''null''"
| "template (Some s) = s"

definition getItem :: "'sv world \<Rightarrow> string \<Rightarrow> js_error + string option" where
  "getItem w k = (if storage_ok w then Inr (localStorage w k) else Inl StorageUnavailable)"

definition setItem :: "'sv world \<Rightarrow> string \<Rightarrow> string \<Rightarrow> js_error + 'sv world" where
  "setItem w k v =
     (if storage_ok w then Inr (w\<lparr>localStorage := (localStorage w)(k \<mapsto> v)\<rparr>)
      else Inl StorageUnavailable)"

definition removeItem :: "'sv world \<Rightarrow> string \<Rightarrow> js_error + 'sv world" where
  "removeItem w k =
     (if storage_ok w then Inr (w\<lparr>localStorage := (localStorage w)(k := None)\<rparr>)
      else Inl StorageUnavailable)"

text \<open>The default \<^verbatim>\<open>validateStatus\<close> of axios: a response resolves iff its status is 2xx.\<close>

definition validateStatus :: "nat \<Rightarrow> bool" where
  "validateStatus s = (200 \<le> s \<and> s < 300)"

text \<open>\<^verbatim>\<open>error.response?.status === 401\<close>\<close>

fun status401 :: "response option \<Rightarrow> bool" where
  "status401 None = False"
| "status401 (Some r) = (status r = 401)"

text \<open>Dispatching a request: the server receives it and answers; the request is logged.\<close>

definition dispatch :: "'sv env \<Rightarrow> 'sv world \<Rightarrow> config \<Rightarrow> raw \<times> 'sv world" where
  "dispatch E w cfg =
     (let (r, sv) = server E (server_state w) cfg
      in (r, w\<lparr>server_state := sv, sent := sent w @ [cfg]\<rparr>))"

text \<open>A request on the global axios: created with the interceptors registered right now.\<close>

definition axios_send :: "'sv env \<Rightarrow> 'sv world \<Rightarrow> config \<Rightarrow> inflight \<times> 'sv world" where
  "axios_send E w cfg =
     (let (r, w1) = dispatch E w cfg in (InFlight cfg r (interceptor w), w1))"


definition post :: "string \<Rightarrow> (string \<times> string) list \<Rightarrow> config" where
  "post u d = \<lparr>url = u, headers = Map.empty, req_data = d, retry = False\<rparr>"

section \<open>AuthProvider (contexts/AuthContext.js)\<close>

text \<open>
  An \<^verbatim>\<open>async\<close> function is modelled in the pieces between its \<^verbatim>\<open>await\<close>s. A network
  call is \<^const>\<open>axios_send\<close> (the request leaves) followed, when the answer arrives, by
  \<open>axios_await\<close> (the answer passes the response interceptors captured by the request).

  \<^verbatim>\<open>logout()\<close> is called without \<^verbatim>\<open>await\<close> in two places. Such a call sends its request at
  once and continues later, when the answer arrives: \<open>logout_spawn\<close> sends the request and
  queues the call in \<^const>\<open>pending\<close>.
\<close>

definition logout_spawn :: "'sv env \<Rightarrow> 'sv world \<Rightarrow> 'sv world" where
  "logout_spawn E w =
     (let (f, w1) = axios_send E w (post ''/api/auth/logout'' [])
      in w1\<lparr>pending := pending w1 @ [f]\<rparr>)"

text \<open>The \<^verbatim>\<open>finally\<close> block of \<^verbatim>\<open>logout\<close>; a throwing \<^verbatim>\<open>removeItem\<close> ends it.\<close>

definition logout_finally :: "'sv world \<Rightarrow> (js_error + unit) \<times> 'sv world" where
  "logout_finally w =
     (case removeItem w ''accessToken'' of
        Inl e \<Rightarrow> (Inl e, w)
      | Inr w1 \<Rightarrow>
          (case removeItem w1 ''refreshToken'' of
             Inl e \<Rightarrow> (Inl e, w1)
           | Inr w2 \<Rightarrow> (Inr (), w2\<lparr>user := None, isAuthenticated := False\<rparr>)))"

text \<open>
  \<^verbatim>\<open>refreshAccessToken\<close> up to its \<^verbatim>\<open>await axios.post\<close>: either the request is in flight, or
  the \<^verbatim>\<open>try\<close> block threw before sending and the \<^verbatim>\<open>catch\<close> ran (\<^verbatim>\<open>logout(); return false\<close>).
\<close>

definition refreshAccessToken_begin :: "'sv env \<Rightarrow> 'sv world \<Rightarrow> inflight option \<times> 'sv world" where
  "refreshAccessToken_begin E w =
     (case getItem w ''refreshToken'' of
        Inl e \<Rightarrow> (None, logout_spawn E w)
      | Inr refreshToken \<Rightarrow>
          if \<not> truthy refreshToken then (None, logout_spawn E w)
          else (let (f, w1) = axios_send E w
                       (post ''/api/auth/refresh'' [(''refresh_token'', template refreshToken)])
                in (Some f, w1)))"

text \<open>\<^verbatim>\<open>refreshAccessToken\<close> from the settled \<^verbatim>\<open>axios.post\<close> on.\<close>

definition refreshAccessToken_resume :: "'sv env \<Rightarrow> 'sv world \<Rightarrow> outcome \<Rightarrow> bool \<times> 'sv world" where
  "refreshAccessToken_resume E w out =
     (case out of
        Inl e \<Rightarrow> (False, logout_spawn E w)
      | Inr r \<Rightarrow>
          (case setItem w ''accessToken'' (access_token (data r)) of
             Inl e \<Rightarrow> (False, logout_spawn E w)
           | Inr w1 \<Rightarrow>
               (case jwt_decode E (access_token (data r)) of
                  None \<Rightarrow> (False, logout_spawn E w1)
                | Some decoded \<Rightarrow>
                    (True, w1\<lparr>user := Some \<lparr>user_id = claim_sub decoded,
                                               user_email = claim_email decoded,
                                               user_name = claim_name decoded\<rparr>,
                                isAuthenticated := True\<rparr>))))"

text \<open>
  The answer of a request on the global axios reaches its caller through the response
  interceptor, if the request captured it: \<open>axios_await\<close>. The interceptor's error handler
  \<open>auth_onRejected\<close> calls \<open>refreshAccessToken\<close>, whose own request is again a request on
  the global axios. Nothing in the source bounds this recursion, so the three functions take
  fuel: \<^const>\<open>None\<close> means that the call has not settled within the fuel given.
\<close>

fun axios_await :: "'sv env \<Rightarrow> nat \<Rightarrow> 'sv world \<Rightarrow> inflight \<Rightarrow> (outcome \<times> 'sv world) option"
and auth_onRejected ::
  "'sv env \<Rightarrow> nat \<Rightarrow> 'sv world \<Rightarrow> config \<Rightarrow> response option \<Rightarrow> (outcome \<times> 'sv world) option"
and refreshAccessToken :: "'sv env \<Rightarrow> nat \<Rightarrow> 'sv world \<Rightarrow> (bool \<times> 'sv world) option"
where
  "axios_await E 0 w f = None"
| "axios_await E (Suc n) w (InFlight cfg (Response r) icpt) =
     (if validateStatus (status r) then Some (Inr r, w)
      else if icpt then auth_onRejected E n w cfg (Some r)
      else Some (Inl (AxiosError cfg (Some r)), w))"
| "axios_await E (Suc n) w (InFlight cfg NoResponse icpt) =
     (if icpt then auth_onRejected E n w cfg None
      else Some (Inl (AxiosError cfg None), w))"
| "auth_onRejected E n w originalRequest resp =
     (if status401 resp \<and> \<not> retry originalRequest then
        (case refreshAccessToken E n w of
           None \<Rightarrow> None
         | Some (success, w1) \<Rightarrow>
             if success then
               (case getItem w1 ''accessToken'' of
                  Inl refreshError \<Rightarrow> Some (Inl refreshError, w1)
                | Inr accessToken \<Rightarrow>
                    axios_await E n
                      (snd (axios_send E w1
                         (originalRequest\<lparr>retry := True,
                            headers := (headers originalRequest)
                              (''Authorization'' \<mapsto> ''Bearer '' @ template accessToken)\<rparr>)))
                      (fst (axios_send E w1
                         (originalRequest\<lparr>retry := True,
                            headers := (headers originalRequest)
                              (''Authorization'' \<mapsto> ''Bearer '' @ template accessToken)\<rparr>))))
             else Some (Inl (AxiosError (originalRequest\<lparr>retry := True\<rparr>) resp), w1))
      else Some (Inl (AxiosError originalRequest resp), w))"
| "refreshAccessToken E n w =
     (case refreshAccessToken_begin E w of
        (None, w1) \<Rightarrow> Some (False, w1)
      | (Some f, w1) \<Rightarrow>
          (case axios_await E n w1 f of
             None \<Rightarrow> None
           | Some (out, w2) \<Rightarrow> Some (refreshAccessToken_resume E w2 out)))"

definition axios_request ::
  "'sv env \<Rightarrow> nat \<Rightarrow> 'sv world \<Rightarrow> config \<Rightarrow> (outcome \<times> 'sv world) option" where
  "axios_request E n w cfg = (let (f, w1) = axios_send E w cfg in axios_await E n w1 f)"


text \<open>\<^verbatim>\<open>err.response?.data?.error || fallback\<close>\<close>

fun error_message :: "js_error \<Rightarrow> string \<Rightarrow> string" where
  "error_message (AxiosError cfg (Some r)) fallback =
     (case body_error (data r) of
        None \<Rightarrow> fallback
      | Some m \<Rightarrow> if m = [] then fallback else m)"
| "error_message e fallback = fallback"

definition login ::
  "'sv env \<Rightarrow> nat \<Rightarrow> 'sv world \<Rightarrow> string \<Rightarrow> string \<Rightarrow> (bool \<times> 'sv world) option" where
  "login E n w email password =
     (case axios_request E n (w\<lparr>error := None, loading := True\<rparr>)
             (post ''/api/auth/login'' [(''email'', email), (''password'', password)]) of
        None \<Rightarrow> None
      | Some (Inl err, w1) \<Rightarrow>
          Some (False, w1\<lparr>error := Some (error_message err ''Login failed''), loading := False\<rparr>)
      | Some (Inr r, w1) \<Rightarrow>
          (case setItem w1 ''accessToken'' (access_token (data r)) of
             Inl err \<Rightarrow>
               Some (False, w1\<lparr>error := Some (error_message err ''Login failed''),
                                loading := False\<rparr>)
           | Inr w2 \<Rightarrow>
               (case setItem w2 ''refreshToken'' (refresh_token (data r)) of
                  Inl err \<Rightarrow>
                    Some (False, w2\<lparr>error := Some (error_message err ''Login failed''),
                                     loading := False\<rparr>)
                | Inr w3 \<Rightarrow>
                    Some (True, w3\<lparr>user := body_user (data r), isAuthenticated := True,
                                    loading := False\<rparr>))))"

definition register ::
  "'sv env \<Rightarrow> nat \<Rightarrow> 'sv world \<Rightarrow> string \<Rightarrow> string \<Rightarrow> string \<Rightarrow> (bool \<times> 'sv world) option"
where
  "register E n w name email password =
     (case axios_request E n (w\<lparr>error := None, loading := True\<rparr>)
             (post ''/api/auth/register''
                [(''name'', name), (''email'', email), (''password'', password)]) of
        None \<Rightarrow> None
      | Some (Inl err, w1) \<Rightarrow>
          Some (False, w1\<lparr>error := Some (error_message err ''Registration failed''),
                           loading := False\<rparr>)
      | Some (Inr r, w1) \<Rightarrow> Some (True, w1\<lparr>loading := False\<rparr>))"

text \<open>
  \<^verbatim>\<open>logout\<close> from the arrival of the answer to its request: the \<^verbatim>\<open>catch\<close> only logs, the
  \<^verbatim>\<open>finally\<close> block runs whatever the answer was.
\<close>

definition logout_resume ::
  "'sv env \<Rightarrow> nat \<Rightarrow> 'sv world \<Rightarrow> inflight \<Rightarrow> ((js_error + unit) \<times> 'sv world) option" where
  "logout_resume E n w f =
     (case axios_await E n w f of
        None \<Rightarrow> None
      | Some (out, w1) \<Rightarrow> Some (logout_finally w1))"

definition logout :: "'sv env \<Rightarrow> nat \<Rightarrow> 'sv world \<Rightarrow> ((js_error + unit) \<times> 'sv world) option" where
  "logout E n w =
     (let (f, w1) = axios_send E w (post ''/api/auth/logout'' []) in logout_resume E n w1 f)"

text \<open>
  The event loop delivering the answers of the \<^verbatim>\<open>logout()\<close> calls that nobody awaits, oldest
  first, until none is left; a rejection of such a call is dropped.
\<close>

fun run_pending :: "'sv env \<Rightarrow> nat \<Rightarrow> 'sv world \<Rightarrow> 'sv world option" where
  "run_pending E 0 w = None"
| "run_pending E (Suc n) w =
     (case pending w of
        [] \<Rightarrow> Some w
      | f # fs \<Rightarrow>
          (case logout_resume E n (w\<lparr>pending := fs\<rparr>) f of
             None \<Rightarrow> None
           | Some (res, w1) \<Rightarrow> run_pending E n w1))"

text \<open>
  \<^verbatim>\<open>initAuth\<close> up to its only \<^verbatim>\<open>await\<close>. It either finishes (its \<^verbatim>\<open>finally\<close> block has set
  \<^verbatim>\<open>loading\<close> to false) or waits for the refresh request that \<^verbatim>\<open>refreshAccessToken\<close> sent.
\<close>

definition initAuth_begin :: "'sv env \<Rightarrow> 'sv world \<Rightarrow> inflight option \<times> 'sv world" where
  "initAuth_begin E w =
     (case getItem w ''accessToken'' of
        Inl err \<Rightarrow> (None, (logout_spawn E w)\<lparr>loading := False\<rparr>)
      | Inr accessToken \<Rightarrow>
          (case getItem w ''refreshToken'' of
             Inl err \<Rightarrow> (None, (logout_spawn E w)\<lparr>loading := False\<rparr>)
           | Inr refreshToken \<Rightarrow>
               if \<not> truthy accessToken \<or> \<not> truthy refreshToken then (None, w\<lparr>loading := False\<rparr>)
               else
                 (case jwt_decode E (template accessToken) of
                    None \<Rightarrow> (None, (logout_spawn E w)\<lparr>loading := False\<rparr>)
                  | Some decoded \<Rightarrow>
                      if real_of_int (claim_exp decoded) < real_of_int (date_now w) / 1000 then
                        (case refreshAccessToken_begin E w of
                           (None, w1) \<Rightarrow> (None, w1\<lparr>loading := False\<rparr>)
                         | (Some f, w1) \<Rightarrow> (Some f, w1))
                      else
                        (None, w\<lparr>user := Some \<lparr>user_id = claim_sub decoded,
                                                 user_email = claim_email decoded,
                                                 user_name = claim_name decoded\<rparr>,
                                  isAuthenticated := True, loading := False\<rparr>))))"

definition initAuth_resume :: "'sv env \<Rightarrow> nat \<Rightarrow> 'sv world \<Rightarrow> inflight \<Rightarrow> 'sv world option" where
  "initAuth_resume E n w f =
     (case axios_await E n w f of
        None \<Rightarrow> None
      | Some (out, w1) \<Rightarrow> Some ((snd (refreshAccessToken_resume E w1 out))\<lparr>loading := False\<rparr>))"

text \<open>
  Mounting \<^verbatim>\<open>AuthProvider\<close>: the state cells take their initial values, then the effects run
  in the order of the source. The first effect runs \<^verbatim>\<open>initAuth\<close> up to its \<^verbatim>\<open>await\<close>, the
  second registers the response interceptor; \<^verbatim>\<open>initAuth\<close> continues afterwards. So a request
  that \<^verbatim>\<open>initAuth\<close> sends before its \<^verbatim>\<open>await\<close> is created without the interceptor.
\<close>

definition AuthProvider_mount :: "'sv env \<Rightarrow> nat \<Rightarrow> 'sv world \<Rightarrow> 'sv world option" where
  "AuthProvider_mount E n w0 =
     (case initAuth_begin E (w0\<lparr>user := None, isAuthenticated := False, loading := True,
                                 error := None, interceptor := False\<rparr>) of
        (None, w1) \<Rightarrow> Some (w1\<lparr>interceptor := True\<rparr>)
      | (Some f, w1) \<Rightarrow> initAuth_resume E n (w1\<lparr>interceptor := True\<rparr>) f)"

section \<open>The axios instance api (services/api.js)\<close>

text \<open>The request interceptor: reads the stored access token at every request.\<close>

definition api_request_interceptor :: "'sv world \<Rightarrow> config \<Rightarrow> js_error + config" where
  "api_request_interceptor w cfg =
     (case getItem w ''accessToken'' of
        Inl e \<Rightarrow> Inl e
      | Inr token \<Rightarrow>
          if truthy token
          then Inr (cfg\<lparr>headers := (headers cfg)(''Authorization'' \<mapsto> ''Bearer '' @ template token)\<rparr>)
          else Inr cfg)"

text \<open>
  The \<^verbatim>\<open>catch (refreshError)\<close> block of the response interceptor; the result is the reason
  of the rejection (that of a throwing \<^verbatim>\<open>removeItem\<close>, if one throws).
\<close>

definition api_refresh_catch :: "'sv world \<Rightarrow> js_error \<Rightarrow> js_error \<times> 'sv world" where
  "api_refresh_catch w refreshError =
     (case removeItem w ''accessToken'' of
        Inl e \<Rightarrow> (e, w)
      | Inr w1 \<Rightarrow>
          (case removeItem w1 ''refreshToken'' of
             Inl e \<Rightarrow> (e, w1)
           | Inr w2 \<Rightarrow> (refreshError, w2\<lparr>href := ''/login''\<rparr>)))"

text \<open>
  The error handler of the response interceptor up to its \<^verbatim>\<open>await axios.post\<close>: it has
  either settled with a rejection, or marked the request and sent a refresh request on the
  global axios.
\<close>

datatype api_step = Rejected js_error | AwaitRefresh config inflight

definition api_onRejected_begin ::
  "'sv env \<Rightarrow> 'sv world \<Rightarrow> config \<Rightarrow> response option \<Rightarrow> api_step \<times> 'sv world" where
  "api_onRejected_begin E w originalRequest resp =
     (if status401 resp \<and> \<not> retry originalRequest then
        (case getItem w ''refreshToken'' of
           Inl e \<Rightarrow> (case api_refresh_catch w e of (e1, w1) \<Rightarrow> (Rejected e1, w1))
         | Inr refreshToken \<Rightarrow>
             if \<not> truthy refreshToken then
               (Rejected (AxiosError (originalRequest\<lparr>retry := True\<rparr>) resp), w\<lparr>href := ''/login''\<rparr>)
             else
               (let (f, w1) = axios_send E w
                      (post ''/api/auth/refresh'' [(''refresh_token'', template refreshToken)])
                in (AwaitRefresh (originalRequest\<lparr>retry := True\<rparr>) f, w1)))
      else (Rejected (AxiosError originalRequest resp), w))"


text \<open>
  A call through \<^verbatim>\<open>api\<close>: request interceptor, dispatch, and on an error the response
  interceptor, which after a successful refresh replays the request through \<^verbatim>\<open>api\<close> itself.
  \<open>api_onRejected_resume\<close> is the error handler from its \<^verbatim>\<open>await\<close> on: it waits for the
  refresh request that the handler itself has sent, and for no other.
  A throwing request interceptor rejects the call before anything is sent (the error handler
  of the response interceptor passes such an error on, since it carries no response).
\<close>

fun api_request :: "'sv env \<Rightarrow> nat \<Rightarrow> 'sv world \<Rightarrow> config \<Rightarrow> (outcome \<times> 'sv world) option"
and api_onRejected ::
  "'sv env \<Rightarrow> nat \<Rightarrow> 'sv world \<Rightarrow> config \<Rightarrow> response option \<Rightarrow> (outcome \<times> 'sv world) option"
and api_onRejected_resume ::
  "'sv env \<Rightarrow> nat \<Rightarrow> 'sv world \<Rightarrow> config \<Rightarrow> inflight \<Rightarrow> (outcome \<times> 'sv world) option"
where
  "api_request E 0 w cfg = None"
| "api_request E (Suc n) w cfg =
     (case api_request_interceptor w cfg of
        Inl e \<Rightarrow> Some (Inl e, w)
      | Inr cfg1 \<Rightarrow>
          (case dispatch E w cfg1 of
             (Response r, w1) \<Rightarrow>
               if validateStatus (status r) then Some (Inr r, w1)
               else api_onRejected E n w1 cfg1 (Some r)
           | (NoResponse, w1) \<Rightarrow> api_onRejected E n w1 cfg1 None))"
| "api_onRejected E n w originalRequest resp =
     (case api_onRejected_begin E w originalRequest resp of
        (Rejected e, w1) \<Rightarrow> Some (Inl e, w1)
      | (AwaitRefresh marked f, w1) \<Rightarrow> api_onRejected_resume E n w1 marked f)"
| "api_onRejected_resume E n w marked f =
     (case axios_await E n w f of
        None \<Rightarrow> None
      | Some (Inl refreshError, w2) \<Rightarrow>
          (case api_refresh_catch w2 refreshError of (e, w3) \<Rightarrow> Some (Inl e, w3))
      | Some (Inr r, w2) \<Rightarrow>
          (case setItem w2 ''accessToken'' (access_token (data r)) of
             Inl e \<Rightarrow> (case api_refresh_catch w2 e of (e1, w3) \<Rightarrow> Some (Inl e1, w3))
           | Inr w3 \<Rightarrow>
               api_request E n w3
                 (marked\<lparr>headers := (headers marked)
                    (''Authorization'' \<mapsto> ''Bearer '' @ access_token (data r))\<rparr>)))"

text \<open>
  Several calls through \<^verbatim>\<open>api\<close> whose answers are errors that arrive before any refresh
  request has been answered: the error handler runs for each up to its \<^verbatim>\<open>await\<close>, one after
  the other (JavaScript runs each to its suspension point without interleaving).
\<close>

fun api_onRejected_all ::
  "'sv env \<Rightarrow> 'sv world \<Rightarrow> (config \<times> response option) list \<Rightarrow> api_step list \<times> 'sv world" where
  "api_onRejected_all E w [] = ([], w)"
| "api_onRejected_all E w ((cfg, resp) # errs) =
     (case api_onRejected_begin E w cfg resp of
        (st, w1) \<Rightarrow> (case api_onRejected_all E w1 errs of (sts, w2) \<Rightarrow> (st # sts, w2)))"


section \<open>Notions used in the statements\<close>

text \<open>The refresh request that both files build from the stored refresh token.\<close>

definition refresh_config :: "string \<Rightarrow> config" where
  "refresh_config refreshToken = post ''/api/auth/refresh'' [(''refresh_token'', refreshToken)]"

text \<open>
  How axios settles a request when no error handler steps in: a 2xx response resolves, any
  other answer rejects with an \<^const>\<open>AxiosError\<close> that carries the request and the response.
\<close>

definition settled :: "config \<Rightarrow> raw \<Rightarrow> outcome" where
  "settled cfg a =
     (case a of
        Response r \<Rightarrow> if validateStatus (status r) then Inr r else Inl (AxiosError cfg (Some r))
      | NoResponse \<Rightarrow> Inl (AxiosError cfg None))"

fun awaits_refresh :: "api_step \<Rightarrow> bool" where
  "awaits_refresh (AwaitRefresh cfg f) = True"
| "awaits_refresh (Rejected e) = False"

text \<open>The user record that \<^verbatim>\<open>initAuth\<close> and \<^verbatim>\<open>refreshAccessToken\<close> build from decoded claims.\<close>

definition user_of :: "claims \<Rightarrow> user_record" where
  "user_of decoded = \<lparr>user_id = claim_sub decoded, user_email = claim_email decoded,
                       user_name = claim_name decoded\<rparr>"

text \<open>The request as the response interceptor of \<^verbatim>\<open>api\<close> replays it with a new token.\<close>

definition replayed :: "config \<Rightarrow> string \<Rightarrow> config" where
  "replayed cfg token =
     cfg\<lparr>retry := True, headers := (headers cfg)(''Authorization'' \<mapsto> ''Bearer '' @ token)\<rparr>"

text \<open>The login request of \<^verbatim>\<open>login(email, password)\<close>.\<close>

definition login_config :: "string \<Rightarrow> string \<Rightarrow> config" where
  "login_config email password =
     post ''/api/auth/login'' [(''email'', email), (''password'', password)]"

text \<open>The request of \<^verbatim>\<open>logout\<close>.\<close>

definition logout_config :: config where
  "logout_config = post ''/api/auth/logout'' []"

text \<open>The answer in transit is a response with status 401.\<close>

fun answered401 :: "raw \<Rightarrow> bool" where
  "answered401 (Response r) = (status r = 401)"
| "answered401 NoResponse = False"

text \<open>
  The state after a mount that has found nothing to authenticate with: the cells hold their
  initial values, \<^verbatim>\<open>loading\<close> is false, the interceptor is registered.
\<close>

definition mounted :: "'sv world \<Rightarrow> 'sv world" where
  "mounted w0 = w0\<lparr>user := None, isAuthenticated := False, loading := False, error := None,
                   interceptor := True\<rparr>"

text \<open>The store without the two tokens.\<close>

definition cleared :: "(string \<rightharpoonup> string) \<Rightarrow> (string \<rightharpoonup> string)" where
  "cleared store = store(''accessToken'' := None, ''refreshToken'' := None)"

text \<open>The answers of the server to a sequence of requests, in the order of their arrival.\<close>

fun answers :: "'sv env \<Rightarrow> 'sv \<Rightarrow> config list \<Rightarrow> raw list \<times> 'sv" where
  "answers E sv [] = ([], sv)"
| "answers E sv (cfg # cfgs) =
     (case server E sv cfg of
        (a, sv1) \<Rightarrow> (case answers E sv1 cfgs of (as, sv2) \<Rightarrow> (a # as, sv2)))"

text \<open>
  The answers in transit to \<open>k\<close> refresh requests that leave the client one after the other
  from the state \<open>w\<close>.
\<close>

definition renewal_answers :: "'sv env \<Rightarrow> 'sv world \<Rightarrow> string \<Rightarrow> nat \<Rightarrow> raw list" where
  "renewal_answers E w refreshToken k =
     fst (answers E (server_state w) (replicate k (refresh_config refreshToken)))"

section \<open>A concrete environment\<close>

text \<open>
  For the evaluations on concrete inputs: a server that plays a script of answers in the
  order in which requests arrive (and stays silent once the script is used up), a decoder
  that knows two tokens, \<open>T1\<close> with expiry 1000 and \<open>T2\<close> with expiry 5000, and a client
  whose clock shows 2000 seconds.
\<close>

fun scripted :: "raw list \<Rightarrow> config \<Rightarrow> raw \<times> raw list" where
  "scripted [] cfg = (NoResponse, [])"
| "scripted (a # as) cfg = (a, as)"

definition answer :: "nat \<Rightarrow> string \<Rightarrow> string \<Rightarrow> response" where
  "answer s a r =
     \<lparr>status = s, data = \<lparr>access_token = a, refresh_token = r, body_user = None, body_error = None\<rparr>\<rparr>"

definition demo_decode :: "string \<Rightarrow> claims option" where
  "demo_decode t =
     (if t = ''T1'' then
        Some \<lparr>claim_sub = ''1'', claim_email = ''a@b.com'', claim_name = ''A'', claim_exp = 1000\<rparr>
      else if t = ''T2'' then
        Some \<lparr>claim_sub = ''1'', claim_email = ''a@b.com'', claim_name = ''A2'', claim_exp = 5000\<rparr>
      else None)"

definition demo_env :: "raw list env" where
  "demo_env = \<lparr>server = scripted, jwt_decode = demo_decode\<rparr>"

definition demo_world :: "bool \<Rightarrow> (string \<rightharpoonup> string) \<Rightarrow> raw list \<Rightarrow> raw list world" where
  "demo_world ok store script =
     \<lparr>storage_ok = ok, localStorage = store, user = None, isAuthenticated = False,
      loading = False, error = None, interceptor = True, href = ''/'', date_now = 2000000,
      server_state = script, sent = [], pending = []\<rparr>"

section \<open>The api pipeline\<close>

text \<open>An answer that is not a 401, or a request without the interceptor, settles as it is.\<close>

lemma axios_await_direct:
  assumes "\<not> (icpt \<and> answered401 a)"
  shows "axios_await E (Suc n) w (InFlight cfg a icpt) = Some (settled cfg a, w)"
proof (cases a)
  case (Response r)
  then show ?thesis
    using assms by (cases n) (auto simp: settled_def)
next
  case NoResponse
  then show ?thesis
    using assms by (cases n) (auto simp: settled_def)
qed

lemma api_request_interceptor_ok:
  "storage_ok w \<Longrightarrow>
   api_request_interceptor w cfg =
     Inr (if truthy (localStorage w ''accessToken'')
          then cfg\<lparr>headers := (headers cfg)
                 (''Authorization'' \<mapsto> ''Bearer '' @ template (localStorage w ''accessToken''))\<rparr>
          else cfg)"
  by (simp add: api_request_interceptor_def getItem_def)

lemma api_request_interceptor_retry:
  "api_request_interceptor w cfg = Inr cfg1 \<Longrightarrow> retry cfg1 = retry cfg"
  by (auto simp: api_request_interceptor_def getItem_def split: if_splits)

text \<open>A request that already carries the mark settles with whatever the server answers.\<close>

lemma api_request_marked:
  assumes "retry cfg"
    and "api_request_interceptor w cfg = Inr cfg1"
    and "server E (server_state w) cfg1 = (a, sv)"
  shows "api_request E (Suc n) w cfg =
           Some (settled cfg1 a, w\<lparr>server_state := sv, sent := sent w @ [cfg1]\<rparr>)"
proof -
  have "retry cfg1"
    using assms api_request_interceptor_retry by blast
  then show ?thesis
    using assms
    by (cases a) (simp_all add: dispatch_def api_onRejected_begin_def settled_def)
qed

text \<open>A 401, a stored refresh token, a successful refresh: the token is stored, the request replayed.\<close>

lemma api_replay:
  assumes ok: "storage_ok w"
    and unauth: "status401 resp" and fresh: "\<not> retry cfg1"
    and rt: "localStorage w ''refreshToken'' = Some rt" "rt \<noteq> []"
    and renew: "server E (server_state w) (refresh_config rt) = (Response r2, sv2)"
               "validateStatus (status r2)"
    and cfg2: "cfg2 = cfg1\<lparr>retry := True, headers := (headers cfg1)
                 (''Authorization'' \<mapsto> ''Bearer '' @ access_token (data r2))\<rparr>"
    and replay: "server E sv2 cfg2 = (a3, sv3)"
  shows "api_onRejected E (Suc n) w cfg1 resp =
           Some (settled cfg2 a3,
                 w\<lparr>localStorage := (localStorage w)(''accessToken'' \<mapsto> access_token (data r2)),
                    server_state := sv3,
                    sent := sent w @ [refresh_config rt, cfg2]\<rparr>)"
proof -
  let ?w1 = "w\<lparr>server_state := sv2, sent := sent w @ [refresh_config rt]\<rparr>"
  let ?w2 = "?w1\<lparr>localStorage := (localStorage w)(''accessToken'' \<mapsto> access_token (data r2))\<rparr>"
  have b: "api_onRejected_begin E w cfg1 resp =
             (AwaitRefresh (cfg1\<lparr>retry := True\<rparr>)
                (InFlight (refresh_config rt) (Response r2) (interceptor w)), ?w1)"
    using ok unauth fresh rt renew
    by (simp add: api_onRejected_begin_def getItem_def axios_send_def dispatch_def
          refresh_config_def)
  have s: "setItem ?w1 ''accessToken'' (access_token (data r2)) = Inr ?w2"
    using ok by (simp add: setItem_def)
  have i: "api_request_interceptor ?w2 cfg2 = Inr cfg2"
    using ok by (simp add: api_request_interceptor_ok cfg2)
  have m: "api_request E (Suc n) ?w2 cfg2 =
             Some (settled cfg2 a3, ?w2\<lparr>server_state := sv3, sent := sent ?w2 @ [cfg2]\<rparr>)"
    by (rule api_request_marked[OF _ i]) (use replay cfg2 in simp_all)
  show ?thesis
    using b s m renew(2) cfg2 by simp
qed

text \<open>
  The same, with a refresh that fails and that the \<^verbatim>\<open>AuthProvider\<close> interceptor does not
  pick up (it is not registered, or the answer is not a 401).
\<close>

lemma api_refresh_failed:
  assumes ok: "storage_ok w"
    and unauth: "status401 resp" and fresh: "\<not> retry cfg1"
    and rt: "localStorage w ''refreshToken'' = Some rt" "rt \<noteq> []"
    and renew: "server E (server_state w) (refresh_config rt) = (a2, sv2)"
    and failed: "settled (refresh_config rt) a2 = Inl e"
    and direct: "\<not> (interceptor w \<and> answered401 a2)"
  shows "api_onRejected E (Suc n) w cfg1 resp =
           Some (Inl e,
                 w\<lparr>localStorage := (localStorage w)(''accessToken'' := None, ''refreshToken'' := None),
                    href := ''/login'', server_state := sv2,
                    sent := sent w @ [refresh_config rt]\<rparr>)"
proof -
  let ?w1 = "w\<lparr>server_state := sv2, sent := sent w @ [refresh_config rt]\<rparr>"
  have b: "api_onRejected_begin E w cfg1 resp =
             (AwaitRefresh (cfg1\<lparr>retry := True\<rparr>)
                (InFlight (refresh_config rt) a2 (interceptor w)), ?w1)"
    using ok unauth fresh rt renew
    by (simp add: api_onRejected_begin_def getItem_def axios_send_def dispatch_def
          refresh_config_def)
  have a: "axios_await E (Suc n) ?w1 (InFlight (refresh_config rt) a2 (interceptor w)) =
             Some (Inl e, ?w1)"
    by (simp add: axios_await_direct[OF direct] failed)
  have c: "api_refresh_catch ?w1 e =
             (e, ?w1\<lparr>localStorage := (localStorage w)(''accessToken'' := None, ''refreshToken'' := None),
                      href := ''/login''\<rparr>)"
    using ok by (simp add: api_refresh_catch_def removeItem_def)
  show ?thesis using b a c by simp
qed

text \<open>The error handler up to its \<^verbatim>\<open>await\<close>, when it decides to refresh.\<close>

lemma api_onRejected_begin_sends:
  assumes "storage_ok w" "status401 resp" "\<not> retry cfg"
    and "localStorage w ''refreshToken'' = Some rt" "rt \<noteq> []"
  shows "api_onRejected_begin E w cfg resp =
           (AwaitRefresh (cfg\<lparr>retry := True\<rparr>)
              (InFlight (refresh_config rt) (fst (server E (server_state w) (refresh_config rt)))
                 (interceptor w)),
            w\<lparr>server_state := snd (server E (server_state w) (refresh_config rt)),
               sent := sent w @ [refresh_config rt]\<rparr>)"
  using assms
  by (simp add: api_onRejected_begin_def getItem_def axios_send_def dispatch_def refresh_config_def
        split_beta)

text \<open>
  C2. A call through \<^verbatim>\<open>api\<close> whose first answer is a 401 and whose replay, after a
  successful refresh, is answered with a 401 again: the client has sent the request, one
  refresh request and one replay, nothing more, and the call is rejected with the 401 error
  of the replay.
\<close>

theorem api_no_double_retry:
  assumes ok: "storage_ok w" and fresh: "\<not> retry cfg"
    and first: "api_request_interceptor w cfg = Inr cfg1"
               "server E (server_state w) cfg1 = (Response r1, sv1)" "status r1 = 401"
    and rt: "localStorage w ''refreshToken'' = Some rt" "rt \<noteq> []"
    and renew: "server E sv1 (refresh_config rt) = (Response r2, sv2)"
               "validateStatus (status r2)"
    and cfg2: "cfg2 = cfg1\<lparr>retry := True, headers := (headers cfg1)
                 (''Authorization'' \<mapsto> ''Bearer '' @ access_token (data r2))\<rparr>"
    and again: "server E sv2 cfg2 = (Response r3, sv3)" "status r3 = 401"
  shows "api_request E (Suc (Suc n)) w cfg =
           Some (Inl (AxiosError cfg2 (Some r3)),
                 w\<lparr>localStorage := (localStorage w)(''accessToken'' \<mapsto> access_token (data r2)),
                    server_state := sv3,
                    sent := sent w @ [cfg1, refresh_config rt, cfg2]\<rparr>)"
proof -
  let ?w1 = "w\<lparr>server_state := sv1, sent := sent w @ [cfg1]\<rparr>"
  have f1: "\<not> retry cfg1"
    using first(1) fresh api_request_interceptor_retry by blast
  have "api_onRejected E (Suc n) ?w1 cfg1 (Some r1) =
          Some (settled cfg2 (Response r3),
                ?w1\<lparr>localStorage := (localStorage ?w1)(''accessToken'' \<mapsto> access_token (data r2)),
                     server_state := sv3,
                     sent := sent ?w1 @ [refresh_config rt, cfg2]\<rparr>)"
    by (rule api_replay[where ?sv2.0 = sv2 and rt = rt])
       (use ok first(3) f1 rt renew cfg2 again(1) in simp_all)
  then show ?thesis
    using first again(2) by (simp add: dispatch_def validateStatus_def settled_def)
qed

theorem api_no_double_retry_witness:
  "api_request demo_env (Suc (Suc 0))
     (demo_world True [''accessToken'' \<mapsto> ''T1'', ''refreshToken'' \<mapsto> ''R1'']
        [Response (answer 401 [] []), Response (answer 200 ''T2'' []), Response (answer 401 [] [])])
     (post ''/strategies'' []) =
   Some (Inl (AxiosError
                \<lparr>url = ''/strategies'', headers = [''Authorization'' \<mapsto> ''Bearer T2''],
                   req_data = [], retry = True\<rparr>
                (Some (answer 401 [] []))),
         (demo_world True [''refreshToken'' \<mapsto> ''R1'', ''accessToken'' \<mapsto> ''T2''] [])
           \<lparr>sent := [\<lparr>url = ''/strategies'', headers = [''Authorization'' \<mapsto> ''Bearer T1''],
                        req_data = [], retry = False\<rparr>,
                     refresh_config ''R1'',
                     \<lparr>url = ''/strategies'', headers = [''Authorization'' \<mapsto> ''Bearer T2''],
                        req_data = [], retry = True\<rparr>]\<rparr>)"
proof -
  let ?w = "demo_world True [''accessToken'' \<mapsto> ''T1'', ''refreshToken'' \<mapsto> ''R1'']
        [Response (answer 401 [] []), Response (answer 200 ''T2'' []), Response (answer 401 [] [])]"
  let ?cfg1 = "\<lparr>url = ''/strategies'', headers = [''Authorization'' \<mapsto> ''Bearer T1''],
                 req_data = [], retry = False\<rparr>"
  have h1: "storage_ok ?w" by (simp add: demo_world_def)
  have h2: "\<not> retry (post ''/strategies'' [])" by (simp add: post_def)
  have h3: "api_request_interceptor ?w (post ''/strategies'' []) = Inr ?cfg1"
    by (simp add: api_request_interceptor_def getItem_def demo_world_def post_def)
  have h4: "server demo_env (server_state ?w) ?cfg1 =
              (Response (answer 401 [] []),
               [Response (answer 200 ''T2'' []), Response (answer 401 [] [])])"
    by (simp add: demo_env_def demo_world_def)
  have h5: "status (answer 401 [] []) = 401" by (simp add: answer_def)
  have h6: "localStorage ?w ''refreshToken'' = Some ''R1''" by (simp add: demo_world_def)
  have h7: "''R1'' \<noteq> []" by simp
  have h8: "server demo_env [Response (answer 200 ''T2'' []), Response (answer 401 [] [])]
              (refresh_config ''R1'') =
              (Response (answer 200 ''T2'' []), [Response (answer 401 [] [])])"
    by (simp add: demo_env_def)
  have h9: "validateStatus (status (answer 200 ''T2'' []))"
    by (simp add: validateStatus_def answer_def)
  have h10: "server demo_env [Response (answer 401 [] [])]
               (?cfg1\<lparr>retry := True, headers := (headers ?cfg1)
                  (''Authorization'' \<mapsto> ''Bearer '' @ access_token (data (answer 200 ''T2'' [])))\<rparr>) =
               (Response (answer 401 [] []), [])"
    by (simp add: demo_env_def)
  show ?thesis
    by (subst api_no_double_retry[OF h1 h2 h3 h4 h5 h6 h7 h8 h9 refl h10 h5, of 0])
       (simp add: demo_world_def answer_def)
qed

text \<open>
  C10. A call through \<^verbatim>\<open>api\<close> that is answered with a 401 while the store holds no refresh
  token (no entry, or an empty one): the call is rejected with that 401 error, the address
  becomes \<^verbatim>\<open>/login\<close>, and the request itself is the only one the client has sent.
\<close>

theorem api_no_refresh_token:
  assumes ok: "storage_ok w" and fresh: "\<not> retry cfg"
    and first: "api_request_interceptor w cfg = Inr cfg1"
               "server E (server_state w) cfg1 = (Response r, sv)" "status r = 401"
    and norefresh: "\<not> truthy (localStorage w ''refreshToken'')"
  shows "api_request E (Suc (Suc n)) w cfg =
           Some (Inl (AxiosError (cfg1\<lparr>retry := True\<rparr>) (Some r)),
                 w\<lparr>server_state := sv, sent := sent w @ [cfg1], href := ''/login''\<rparr>)"
proof -
  have "\<not> retry cfg1"
    using first(1) fresh api_request_interceptor_retry by blast
  moreover have "\<not> validateStatus (status r)"
    using first(3) by (simp add: validateStatus_def)
  ultimately show ?thesis
    using ok first norefresh
    by (simp add: dispatch_def api_onRejected_begin_def getItem_def)
qed

theorem api_no_refresh_token_witness:
  "api_request demo_env (Suc (Suc 0))
     (demo_world True [''accessToken'' \<mapsto> ''T1''] [Response (answer 401 [] [])])
     (post ''/strategies'' []) =
   Some (Inl (AxiosError
                \<lparr>url = ''/strategies'', headers = [''Authorization'' \<mapsto> ''Bearer T1''],
                   req_data = [], retry = True\<rparr>
                (Some (answer 401 [] []))),
         (demo_world True [''accessToken'' \<mapsto> ''T1''] [])
           \<lparr>sent := [\<lparr>url = ''/strategies'', headers = [''Authorization'' \<mapsto> ''Bearer T1''],
                        req_data = [], retry = False\<rparr>],
            href := ''/login''\<rparr>)"
proof -
  let ?w = "demo_world True [''accessToken'' \<mapsto> ''T1''] [Response (answer 401 [] [])]"
  let ?cfg1 = "\<lparr>url = ''/strategies'', headers = [''Authorization'' \<mapsto> ''Bearer T1''],
                 req_data = [], retry = False\<rparr>"
  have h1: "storage_ok ?w" by (simp add: demo_world_def)
  have h2: "\<not> retry (post ''/strategies'' [])" by (simp add: post_def)
  have h3: "api_request_interceptor ?w (post ''/strategies'' []) = Inr ?cfg1"
    by (simp add: api_request_interceptor_def getItem_def demo_world_def post_def)
  have h4: "server demo_env (server_state ?w) ?cfg1 = (Response (answer 401 [] []), [])"
    by (simp add: demo_env_def demo_world_def)
  have h5: "status (answer 401 [] []) = 401" by (simp add: answer_def)
  have h6: "\<not> truthy (localStorage ?w ''refreshToken'')" by (simp add: demo_world_def)
  show ?thesis
    by (subst api_no_refresh_token[OF h1 h2 h3 h4 h5 h6, of 0])
       (simp add: demo_world_def answer_def)
qed

text \<open>The error handler from its \<^verbatim>\<open>await\<close> on, for a refresh answered with a 2xx response.\<close>

lemma api_resume_success:
  assumes ok: "storage_ok w1" and v: "validateStatus (status r)"
    and replay: "server E (server_state w1) (replayed cfg (access_token (data r))) = (a3, sv3)"
  shows "api_onRejected_resume E (Suc n) w1 (cfg\<lparr>retry := True\<rparr>) (InFlight rc (Response r) icpt) =
           Some (settled (replayed cfg (access_token (data r))) a3,
                 w1\<lparr>localStorage := (localStorage w1)(''accessToken'' \<mapsto> access_token (data r)),
                     server_state := sv3,
                     sent := sent w1 @ [replayed cfg (access_token (data r))]\<rparr>)"
proof -
  let ?cfg2 = "replayed cfg (access_token (data r))"
  let ?w2 = "w1\<lparr>localStorage := (localStorage w1)(''accessToken'' \<mapsto> access_token (data r))\<rparr>"
  have s: "setItem w1 ''accessToken'' (access_token (data r)) = Inr ?w2"
    using ok by (simp add: setItem_def)
  have i: "api_request_interceptor ?w2 ?cfg2 = Inr ?cfg2"
    using ok by (simp add: api_request_interceptor_ok replayed_def)
  have m: "api_request E (Suc n) ?w2 ?cfg2 =
             Some (settled ?cfg2 a3, ?w2\<lparr>server_state := sv3, sent := sent ?w2 @ [?cfg2]\<rparr>)"
    by (rule api_request_marked[OF _ i]) (use replay in \<open>simp_all add: replayed_def\<close>)
  have "api_onRejected_resume E (Suc n) w1 (cfg\<lparr>retry := True\<rparr>) (InFlight rc (Response r) icpt) =
          api_request E (Suc n) ?w2 ?cfg2"
    using v s by (simp add: replayed_def del: api_request.simps)
  then show ?thesis
    using m by simp
qed

text \<open>The same for a refresh that fails and that the other interceptor does not pick up.\<close>

lemma api_resume_failed:
  assumes ok: "storage_ok w1" and failed: "settled rc a = Inl e"
    and direct: "\<not> (icpt \<and> answered401 a)"
  shows "api_onRejected_resume E (Suc n) w1 marked (InFlight rc a icpt) =
           Some (Inl e, w1\<lparr>localStorage := cleared (localStorage w1), href := ''/login''\<rparr>)"
proof -
  have a: "axios_await E (Suc n) w1 (InFlight rc a icpt) = Some (Inl e, w1)"
    by (simp add: axios_await_direct[OF direct] failed)
  have c: "api_refresh_catch w1 e =
             (e, w1\<lparr>localStorage := cleared (localStorage w1), href := ''/login''\<rparr>)"
    using ok by (simp add: api_refresh_catch_def removeItem_def cleared_def)
  show ?thesis using a c by simp
qed

lemma length_answers: "length (fst (answers E sv cfgs)) = length cfgs"
  by (induction cfgs arbitrary: sv) (simp_all add: split_beta)

text \<open>All handlers up to their \<^verbatim>\<open>await\<close>: who waits for what.\<close>

lemma api_onRejected_all_exact:
  assumes "storage_ok w"
    and "localStorage w ''refreshToken'' = Some rt" "rt \<noteq> []"
    and "\<forall>(cfg, resp) \<in> set errs. status401 resp \<and> \<not> retry cfg"
  shows "api_onRejected_all E w errs =
           (map (\<lambda>((cfg, resp), a).
                   AwaitRefresh (cfg\<lparr>retry := True\<rparr>)
                     (InFlight (refresh_config rt) a (interceptor w)))
              (zip errs (fst (answers E (server_state w)
                                (replicate (length errs) (refresh_config rt))))),
            w\<lparr>server_state := snd (answers E (server_state w)
                                  (replicate (length errs) (refresh_config rt))),
               sent := sent w @ replicate (length errs) (refresh_config rt)\<rparr>)"
  using assms
proof (induction errs arbitrary: w)
  case Nil
  then show ?case by simp
next
  case (Cons x errs)
  obtain cfg resp where x: "x = (cfg, resp)" by (cases x)
  let ?w1 = "w\<lparr>server_state := snd (server E (server_state w) (refresh_config rt)),
               sent := sent w @ [refresh_config rt]\<rparr>"
  have b: "api_onRejected_begin E w cfg resp =
           (AwaitRefresh (cfg\<lparr>retry := True\<rparr>)
              (InFlight (refresh_config rt) (fst (server E (server_state w) (refresh_config rt)))
                 (interceptor w)), ?w1)"
    using Cons.prems x by (intro api_onRejected_begin_sends) auto
  have ih: "api_onRejected_all E ?w1 errs =
           (map (\<lambda>((cfg, resp), a).
                   AwaitRefresh (cfg\<lparr>retry := True\<rparr>)
                     (InFlight (refresh_config rt) a (interceptor ?w1)))
              (zip errs (fst (answers E (server_state ?w1)
                                (replicate (length errs) (refresh_config rt))))),
            ?w1\<lparr>server_state := snd (answers E (server_state ?w1)
                                  (replicate (length errs) (refresh_config rt))),
               sent := sent ?w1 @ replicate (length errs) (refresh_config rt)\<rparr>)"
    using Cons.prems by (intro Cons.IH) auto
  show ?case
    by (simp add: x b ih split_beta)
qed

text \<open>
  C1, as the code has it. Several calls through \<^verbatim>\<open>api\<close> are answered with a 401 before any
  refresh request has been answered, and the store holds a refresh token. Nothing is shared
  between the error handlers. Each sends a refresh request of its own, so N refresh requests
  reach the server, and the handler of call \<open>i\<close> waits for the answer to the \<open>i\<close>-th of them
  and for nothing else. Whenever that answer is delivered, the outcome of call \<open>i\<close> follows
  from it: after a 2xx answer the handler stores the access token of that answer and
  replays its own request with it, and the call settles as the replay does; after a failure
  that the interceptor of \<^verbatim>\<open>AuthProvider\<close> does not pick up, the handler removes both tokens,
  sets the address to \<^verbatim>\<open>/login\<close> and the call is rejected with the error of its own refresh.
\<close>

theorem api_renewal_per_call:
  assumes "storage_ok w"
    and "localStorage w ''refreshToken'' = Some rt" "rt \<noteq> []"
    and "\<forall>(cfg, resp) \<in> set errs. status401 resp \<and> \<not> retry cfg"
  shows "sent (snd (api_onRejected_all E w errs)) =
           sent w @ replicate (length errs) (refresh_config rt)
       \<and> length (fst (api_onRejected_all E w errs)) = length errs
       \<and> list_all awaits_refresh (fst (api_onRejected_all E w errs))
       \<and> (\<forall>i<length errs.
            fst (api_onRejected_all E w errs) ! i =
              AwaitRefresh ((fst (errs ! i))\<lparr>retry := True\<rparr>)
                (InFlight (refresh_config rt) (renewal_answers E w rt (length errs) ! i)
                   (interceptor w))
          \<and> (\<forall>w1 n. storage_ok w1 \<longrightarrow>
               (case settled (refresh_config rt) (renewal_answers E w rt (length errs) ! i) of
                  Inr r \<Rightarrow>
                    \<forall>a3 sv3.
                      server E (server_state w1)
                        (replayed (fst (errs ! i)) (access_token (data r))) = (a3, sv3) \<longrightarrow>
                      api_onRejected_resume E (Suc n) w1 ((fst (errs ! i))\<lparr>retry := True\<rparr>)
                        (InFlight (refresh_config rt)
                           (renewal_answers E w rt (length errs) ! i) (interceptor w)) =
                        Some (settled (replayed (fst (errs ! i)) (access_token (data r))) a3,
                              w1\<lparr>localStorage := (localStorage w1)
                                    (''accessToken'' \<mapsto> access_token (data r)),
                                  server_state := sv3,
                                  sent := sent w1 @
                                    [replayed (fst (errs ! i)) (access_token (data r))]\<rparr>)
                | Inl e \<Rightarrow>
                    \<not> (interceptor w \<and>
                       answered401 (renewal_answers E w rt (length errs) ! i)) \<longrightarrow>
                    api_onRejected_resume E (Suc n) w1 ((fst (errs ! i))\<lparr>retry := True\<rparr>)
                      (InFlight (refresh_config rt)
                         (renewal_answers E w rt (length errs) ! i) (interceptor w)) =
                      Some (Inl e, w1\<lparr>localStorage := cleared (localStorage w1),
                                       href := ''/login''\<rparr>))))"
proof -
  let ?as = "renewal_answers E w rt (length errs)"
  let ?step = "\<lambda>((cfg, resp), a).
                 AwaitRefresh (cfg\<lparr>retry := True\<rparr>)
                   (InFlight (refresh_config rt) a (interceptor w))"
  have ex: "api_onRejected_all E w errs =
              (map ?step (zip errs ?as),
               w\<lparr>server_state := snd (answers E (server_state w)
                                     (replicate (length errs) (refresh_config rt))),
                  sent := sent w @ replicate (length errs) (refresh_config rt)\<rparr>)"
    using api_onRejected_all_exact[OF assms] by (simp add: renewal_answers_def)
  have len: "length ?as = length errs"
    by (simp add: renewal_answers_def length_answers)
  have s1: "sent (snd (api_onRejected_all E w errs)) =
              sent w @ replicate (length errs) (refresh_config rt)"
    by (simp add: ex)
  have s2: "length (fst (api_onRejected_all E w errs)) = length errs"
    by (simp add: ex len)
  have s3: "list_all awaits_refresh (fst (api_onRejected_all E w errs))"
    by (auto simp: ex list_all_iff)
  have s4: "fst (api_onRejected_all E w errs) ! i =
              AwaitRefresh ((fst (errs ! i))\<lparr>retry := True\<rparr>)
                (InFlight (refresh_config rt) (?as ! i) (interceptor w))"
    if "i < length errs" for i
    using that len by (simp add: ex split_beta)
  have s5: "case settled (refresh_config rt) a of
              Inr r \<Rightarrow>
                \<forall>a3 sv3.
                  server E (server_state w1) (replayed cfg (access_token (data r))) = (a3, sv3) \<longrightarrow>
                  api_onRejected_resume E (Suc n) w1 (cfg\<lparr>retry := True\<rparr>)
                    (InFlight (refresh_config rt) a (interceptor w)) =
                    Some (settled (replayed cfg (access_token (data r))) a3,
                          w1\<lparr>localStorage := (localStorage w1)
                                (''accessToken'' \<mapsto> access_token (data r)),
                              server_state := sv3,
                              sent := sent w1 @ [replayed cfg (access_token (data r))]\<rparr>)
            | Inl e \<Rightarrow>
                \<not> (interceptor w \<and> answered401 a) \<longrightarrow>
                api_onRejected_resume E (Suc n) w1 (cfg\<lparr>retry := True\<rparr>)
                  (InFlight (refresh_config rt) a (interceptor w)) =
                  Some (Inl e, w1\<lparr>localStorage := cleared (localStorage w1),
                                   href := ''/login''\<rparr>)"
    if ok1: "storage_ok w1" for w1 n a cfg
  proof (cases "settled (refresh_config rt) a")
    case (Inl e)
    have "\<not> (interceptor w \<and> answered401 a) \<longrightarrow>
                api_onRejected_resume E (Suc n) w1 (cfg\<lparr>retry := True\<rparr>)
                  (InFlight (refresh_config rt) a (interceptor w)) =
                  Some (Inl e, w1\<lparr>localStorage := cleared (localStorage w1),
                                   href := ''/login''\<rparr>)"
      using api_resume_failed[OF ok1 Inl] by blast
    then show ?thesis
      by (simp only: Inl sum.case)
  next
    case (Inr r)
    then have a: "a = Response r" and v: "validateStatus (status r)"
      by (cases a; simp add: settled_def split: if_splits)+
    have "\<forall>a3 sv3.
                  server E (server_state w1) (replayed cfg (access_token (data r))) = (a3, sv3) \<longrightarrow>
                  api_onRejected_resume E (Suc n) w1 (cfg\<lparr>retry := True\<rparr>)
                    (InFlight (refresh_config rt) a (interceptor w)) =
                    Some (settled (replayed cfg (access_token (data r))) a3,
                          w1\<lparr>localStorage := (localStorage w1)
                                (''accessToken'' \<mapsto> access_token (data r)),
                              server_state := sv3,
                              sent := sent w1 @ [replayed cfg (access_token (data r))]\<rparr>)"
      using api_resume_success[OF ok1 v] unfolding a by blast
    then show ?thesis
      by (simp only: Inr sum.case)
  qed
  show ?thesis
    using s1 s2 s3 s4 s5 by blast
qed

theorem api_renewal_per_call_witness:
  "fst (api_onRejected_all demo_env
       (demo_world True [''accessToken'' \<mapsto> ''T1'', ''refreshToken'' \<mapsto> ''R1'']
          [Response (answer 200 ''T2'' []), Response (answer 403 [] [])])
       [(post ''/strategies'' [], Some (answer 401 [] [])),
        (post ''/stock-lists'' [], Some (answer 401 [] []))]) ! 1 =
     AwaitRefresh ((post ''/stock-lists'' [])\<lparr>retry := True\<rparr>)
       (InFlight (refresh_config ''R1'') (Response (answer 403 [] [])) True)
 \<and> api_onRejected_resume demo_env (Suc 0)
       (demo_world True [''accessToken'' \<mapsto> ''T1'', ''refreshToken'' \<mapsto> ''R1''] [])
       ((post ''/stock-lists'' [])\<lparr>retry := True\<rparr>)
       (InFlight (refresh_config ''R1'') (Response (answer 403 [] [])) True) =
     Some (Inl (AxiosError (refresh_config ''R1'') (Some (answer 403 [] []))),
           (demo_world True Map.empty [])\<lparr>href := ''/login''\<rparr>)"
proof -
  let ?w = "demo_world True [''accessToken'' \<mapsto> ''T1'', ''refreshToken'' \<mapsto> ''R1'']
          [Response (answer 200 ''T2'' []), Response (answer 403 [] [])]"
  let ?w1 = "demo_world True [''accessToken'' \<mapsto> ''T1'', ''refreshToken'' \<mapsto> ''R1''] []"
  let ?errs = "[(post ''/strategies'' [], Some (answer 401 [] [])),
        (post ''/stock-lists'' [], Some (answer 401 [] []))]"
  have h1: "storage_ok ?w" by (simp add: demo_world_def)
  have h2: "localStorage ?w ''refreshToken'' = Some ''R1''" by (simp add: demo_world_def)
  have h3: "''R1'' \<noteq> []" by simp
  have h4: "\<forall>(cfg, resp) \<in> set ?errs. status401 resp \<and> \<not> retry cfg"
    by (simp add: post_def answer_def)
  have p: "1 < length ?errs" by simp
  have as: "renewal_answers demo_env ?w ''R1'' (length ?errs) ! 1 = Response (answer 403 [] [])"
    by (simp add: renewal_answers_def demo_env_def demo_world_def numeral_2_eq_2)
  have st: "settled (refresh_config ''R1'') (Response (answer 403 [] [])) =
              Inl (AxiosError (refresh_config ''R1'') (Some (answer 403 [] [])))"
    by (simp add: settled_def validateStatus_def answer_def)
  have i: "interceptor ?w = True" by (simp add: demo_world_def)
  have ok1: "storage_ok ?w1" by (simp add: demo_world_def)
  have na: "\<not> (True \<and> answered401 (Response (answer 403 [] [])))"
    by (simp add: answer_def)
  note c = api_renewal_per_call[OF h1 h2 h3 h4, of demo_env,
             THEN conjunct2, THEN conjunct2, THEN conjunct2, rule_format, OF p]
  have c1: "fst (api_onRejected_all demo_env ?w ?errs) ! 1 =
              AwaitRefresh ((post ''/stock-lists'' [])\<lparr>retry := True\<rparr>)
                (InFlight (refresh_config ''R1'') (Response (answer 403 [] [])) True)"
    using c[THEN conjunct1] unfolding as i by simp
  have "\<not> (True \<and> answered401 (Response (answer 403 [] []))) \<longrightarrow>
          api_onRejected_resume demo_env (Suc 0) ?w1 ((post ''/stock-lists'' [])\<lparr>retry := True\<rparr>)
            (InFlight (refresh_config ''R1'') (Response (answer 403 [] [])) True) =
          Some (Inl (AxiosError (refresh_config ''R1'') (Some (answer 403 [] []))),
                ?w1\<lparr>localStorage := cleared (localStorage ?w1), href := ''/login''\<rparr>)"
    using c[THEN conjunct2, rule_format, OF ok1, of 0] unfolding as i st by simp
  with na have c2: "api_onRejected_resume demo_env (Suc 0) ?w1
            ((post ''/stock-lists'' [])\<lparr>retry := True\<rparr>)
            (InFlight (refresh_config ''R1'') (Response (answer 403 [] [])) True) =
          Some (Inl (AxiosError (refresh_config ''R1'') (Some (answer 403 [] []))),
                ?w1\<lparr>localStorage := cleared (localStorage ?w1), href := ''/login''\<rparr>)"
    by blast
  have e: "?w1\<lparr>localStorage := cleared (localStorage ?w1), href := ''/login''\<rparr> =
           (demo_world True Map.empty [])\<lparr>href := ''/login''\<rparr>"
    by (simp add: demo_world_def cleared_def)
  show ?thesis
    using c1 c2 unfolding e by blast
qed

text \<open>
  The claim as the specification words it (one refresh request for all the calls) fails
  already for two calls: two refresh requests have left the client when both handlers wait.
\<close>

theorem single_flight_counterexample:
  "sent (snd (api_onRejected_all demo_env
       (demo_world True [''accessToken'' \<mapsto> ''T1'', ''refreshToken'' \<mapsto> ''R1''] [])
       [(post ''/strategies'' [], Some (answer 401 [] [])),
        (post ''/stock-lists'' [], Some (answer 401 [] []))])) =
     [refresh_config ''R1'', refresh_config ''R1'']"
  by (simp add: api_onRejected_begin_def getItem_def axios_send_def dispatch_def
        demo_world_def demo_env_def post_def answer_def refresh_config_def)

text \<open>
  C8, as the code has it. The request interceptor runs at every dispatch through \<^verbatim>\<open>api\<close>,
  the first send and the replay alike. It reads the access token from the store at that
  moment and attaches it exactly when it is a non-empty string; the session's
  \<^verbatim>\<open>isAuthenticated\<close> cell plays no part. After a 401 and a successful refresh, the token of
  the refresh answer is stored and the replay carries that token.
\<close>

theorem api_token_read_at_dispatch:
  assumes ok: "storage_ok w"
  shows "api_request_interceptor w cfg =
           Inr (if truthy (localStorage w ''accessToken'')
                then cfg\<lparr>headers := (headers cfg)
                       (''Authorization'' \<mapsto> ''Bearer '' @ template (localStorage w ''accessToken''))\<rparr>
                else cfg)
       \<and> (\<forall>cfg1 r1 sv1 rt r2 sv2 a3 sv3.
            \<not> retry cfg \<and> api_request_interceptor w cfg = Inr cfg1 \<and>
            server E (server_state w) cfg1 = (Response r1, sv1) \<and> status r1 = 401 \<and>
            localStorage w ''refreshToken'' = Some rt \<and> rt \<noteq> [] \<and>
            server E sv1 (refresh_config rt) = (Response r2, sv2) \<and> validateStatus (status r2) \<and>
            server E sv2 (replayed cfg1 (access_token (data r2))) = (a3, sv3) \<longrightarrow>
            api_request E (Suc (Suc n)) w cfg =
              Some (settled (replayed cfg1 (access_token (data r2))) a3,
                    w\<lparr>localStorage := (localStorage w)(''accessToken'' \<mapsto> access_token (data r2)),
                       server_state := sv3,
                       sent := sent w @ [cfg1, refresh_config rt,
                                         replayed cfg1 (access_token (data r2))]\<rparr>))"
proof (intro conjI allI impI)
  show "api_request_interceptor w cfg =
           Inr (if truthy (localStorage w ''accessToken'')
                then cfg\<lparr>headers := (headers cfg)
                       (''Authorization'' \<mapsto> ''Bearer '' @ template (localStorage w ''accessToken''))\<rparr>
                else cfg)"
    using ok by (rule api_request_interceptor_ok)
next
  fix cfg1 r1 sv1 rt r2 sv2 a3 sv3
  assume h: "\<not> retry cfg \<and> api_request_interceptor w cfg = Inr cfg1 \<and>
            server E (server_state w) cfg1 = (Response r1, sv1) \<and> status r1 = 401 \<and>
            localStorage w ''refreshToken'' = Some rt \<and> rt \<noteq> [] \<and>
            server E sv1 (refresh_config rt) = (Response r2, sv2) \<and> validateStatus (status r2) \<and>
            server E sv2 (replayed cfg1 (access_token (data r2))) = (a3, sv3)"
  let ?w1 = "w\<lparr>server_state := sv1, sent := sent w @ [cfg1]\<rparr>"
  let ?cfg2 = "replayed cfg1 (access_token (data r2))"
  have f1: "\<not> retry cfg1"
    using h api_request_interceptor_retry by blast
  have "api_onRejected E (Suc n) ?w1 cfg1 (Some r1) =
          Some (settled ?cfg2 a3,
                ?w1\<lparr>localStorage := (localStorage ?w1)(''accessToken'' \<mapsto> access_token (data r2)),
                     server_state := sv3,
                     sent := sent ?w1 @ [refresh_config rt, ?cfg2]\<rparr>)"
    by (rule api_replay[where ?sv2.0 = sv2 and rt = rt])
       (use ok h f1 in \<open>simp_all add: replayed_def\<close>)
  then show "api_request E (Suc (Suc n)) w cfg =
              Some (settled ?cfg2 a3,
                    w\<lparr>localStorage := (localStorage w)(''accessToken'' \<mapsto> access_token (data r2)),
                       server_state := sv3,
                       sent := sent w @ [cfg1, refresh_config rt, ?cfg2]\<rparr>)"
    using h by (simp add: dispatch_def validateStatus_def)
qed

theorem api_token_read_at_dispatch_witness:
  "api_request demo_env (Suc (Suc 0))
     (demo_world True [''accessToken'' \<mapsto> ''T1'', ''refreshToken'' \<mapsto> ''R1'']
        [Response (answer 401 [] []), Response (answer 200 ''T2'' []), Response (answer 200 [] [])])
     (post ''/strategies'' []) =
   Some (Inr (answer 200 [] []),
         (demo_world True [''refreshToken'' \<mapsto> ''R1'', ''accessToken'' \<mapsto> ''T2''] [])
           \<lparr>sent := [\<lparr>url = ''/strategies'', headers = [''Authorization'' \<mapsto> ''Bearer T1''],
                        req_data = [], retry = False\<rparr>,
                     refresh_config ''R1'',
                     \<lparr>url = ''/strategies'', headers = [''Authorization'' \<mapsto> ''Bearer T2''],
                        req_data = [], retry = True\<rparr>]\<rparr>)"
proof -
  let ?w = "demo_world True [''accessToken'' \<mapsto> ''T1'', ''refreshToken'' \<mapsto> ''R1'']
        [Response (answer 401 [] []), Response (answer 200 ''T2'' []), Response (answer 200 [] [])]"
  let ?cfg1 = "\<lparr>url = ''/strategies'', headers = [''Authorization'' \<mapsto> ''Bearer T1''],
                 req_data = [], retry = False\<rparr>"
  have h1: "storage_ok ?w" by (simp add: demo_world_def)
  have h: "\<not> retry (post ''/strategies'' []) \<and>
           api_request_interceptor ?w (post ''/strategies'' []) = Inr ?cfg1 \<and>
           server demo_env (server_state ?w) ?cfg1 =
             (Response (answer 401 [] []),
              [Response (answer 200 ''T2'' []), Response (answer 200 [] [])]) \<and>
           status (answer 401 [] []) = 401 \<and>
           localStorage ?w ''refreshToken'' = Some ''R1'' \<and> ''R1'' \<noteq> [] \<and>
           server demo_env [Response (answer 200 ''T2'' []), Response (answer 200 [] [])]
             (refresh_config ''R1'') =
             (Response (answer 200 ''T2'' []), [Response (answer 200 [] [])]) \<and>
           validateStatus (status (answer 200 ''T2'' [])) \<and>
           server demo_env [Response (answer 200 [] [])]
             (replayed ?cfg1 (access_token (data (answer 200 ''T2'' [])))) =
             (Response (answer 200 [] []), [])"
    by (simp add: api_request_interceptor_def getItem_def demo_world_def demo_env_def post_def
          answer_def validateStatus_def)
  from api_token_read_at_dispatch[OF h1, of "post ''/strategies'' []" demo_env 0]
  have "api_request demo_env (Suc (Suc 0)) ?w (post ''/strategies'' []) =
          Some (settled (replayed ?cfg1 (access_token (data (answer 200 ''T2'' []))))
                  (Response (answer 200 [] [])),
                ?w\<lparr>localStorage := (localStorage ?w)
                       (''accessToken'' \<mapsto> access_token (data (answer 200 ''T2'' []))),
                    server_state := [],
                    sent := sent ?w @ [?cfg1, refresh_config ''R1'',
                              replayed ?cfg1 (access_token (data (answer 200 ''T2'' [])))]\<rparr>)"
    using h by blast
  then show ?thesis
    by (simp add: demo_world_def answer_def settled_def validateStatus_def replayed_def)
qed

text \<open>
  The claim as the specification words it ties the credential to the session being
  authenticated. Here the session is not authenticated, the store holds a token, and the
  request leaves with that token.
\<close>

theorem api_token_session_counterexample:
  "\<not> isAuthenticated (demo_world True [''accessToken'' \<mapsto> ''T1'', ''refreshToken'' \<mapsto> ''R1'']
        [Response (answer 200 [] [])]) \<and>
   api_request demo_env (Suc 0)
     (demo_world True [''accessToken'' \<mapsto> ''T1'', ''refreshToken'' \<mapsto> ''R1'']
        [Response (answer 200 [] [])])
     (post ''/strategies'' []) =
   Some (Inr (answer 200 [] []),
         (demo_world True [''accessToken'' \<mapsto> ''T1'', ''refreshToken'' \<mapsto> ''R1''] [])
           \<lparr>sent := [\<lparr>url = ''/strategies'', headers = [''Authorization'' \<mapsto> ''Bearer T1''],
                        req_data = [], retry = False\<rparr>]\<rparr>)"
  by (simp add: api_request_interceptor_def getItem_def dispatch_def demo_world_def demo_env_def
        post_def answer_def validateStatus_def)

text \<open>
  C3, as the code has it. The response interceptor of \<^verbatim>\<open>api\<close> refreshes by itself and writes
  the store by itself. After a 401 with a refresh token in the store it sends the refresh
  request on its own, without a call of \<^verbatim>\<open>refreshAccessToken\<close>. If that request is answered
  with a 2xx response, it stores the new access token and replays the request. If the
  request fails and the interceptor of \<^verbatim>\<open>AuthProvider\<close> does not pick the failure up (it is
  not registered, or the answer is not a 401), it removes both tokens and sets the address
  to \<^verbatim>\<open>/login\<close>. In both cases the session cells (\<^verbatim>\<open>user\<close>, \<^verbatim>\<open>isAuthenticated\<close>) keep their
  values. A 401 on the refresh request that the interceptor of \<^verbatim>\<open>AuthProvider\<close> picks up is
  the defect of that interceptor and is not described here.
\<close>

theorem api_writes_store:
  assumes ok: "storage_ok w"
    and unauth: "status401 resp" and fresh: "\<not> retry cfg1"
    and rt: "localStorage w ''refreshToken'' = Some rt" "rt \<noteq> []"
    and renew: "server E (server_state w) (refresh_config rt) = (a2, sv2)"
  shows "api_onRejected_begin E w cfg1 resp =
           (AwaitRefresh (cfg1\<lparr>retry := True\<rparr>)
              (InFlight (refresh_config rt) a2 (interceptor w)),
            w\<lparr>server_state := sv2, sent := sent w @ [refresh_config rt]\<rparr>)
       \<and> (case settled (refresh_config rt) a2 of
           Inr r2 \<Rightarrow>
             \<forall>a3 sv3. server E sv2 (replayed cfg1 (access_token (data r2))) = (a3, sv3) \<longrightarrow>
               api_onRejected E (Suc n) w cfg1 resp =
                 Some (settled (replayed cfg1 (access_token (data r2))) a3,
                       w\<lparr>localStorage := (localStorage w)(''accessToken'' \<mapsto> access_token (data r2)),
                          server_state := sv3,
                          sent := sent w @ [refresh_config rt,
                                            replayed cfg1 (access_token (data r2))]\<rparr>)
         | Inl e \<Rightarrow>
             \<not> (interceptor w \<and> answered401 a2) \<longrightarrow>
             api_onRejected E (Suc n) w cfg1 resp =
               Some (Inl e,
                     w\<lparr>localStorage := (localStorage w)
                          (''accessToken'' := None, ''refreshToken'' := None),
                        href := ''/login'', server_state := sv2,
                        sent := sent w @ [refresh_config rt]\<rparr>))"
proof (rule conjI)
  show "api_onRejected_begin E w cfg1 resp =
           (AwaitRefresh (cfg1\<lparr>retry := True\<rparr>)
              (InFlight (refresh_config rt) a2 (interceptor w)),
            w\<lparr>server_state := sv2, sent := sent w @ [refresh_config rt]\<rparr>)"
    using api_onRejected_begin_sends[OF ok unauth fresh rt, of E] renew by simp
next
  show "case settled (refresh_config rt) a2 of
           Inr r2 \<Rightarrow>
             \<forall>a3 sv3. server E sv2 (replayed cfg1 (access_token (data r2))) = (a3, sv3) \<longrightarrow>
               api_onRejected E (Suc n) w cfg1 resp =
                 Some (settled (replayed cfg1 (access_token (data r2))) a3,
                       w\<lparr>localStorage := (localStorage w)(''accessToken'' \<mapsto> access_token (data r2)),
                          server_state := sv3,
                          sent := sent w @ [refresh_config rt,
                                            replayed cfg1 (access_token (data r2))]\<rparr>)
         | Inl e \<Rightarrow>
             \<not> (interceptor w \<and> answered401 a2) \<longrightarrow>
             api_onRejected E (Suc n) w cfg1 resp =
               Some (Inl e,
                     w\<lparr>localStorage := (localStorage w)
                          (''accessToken'' := None, ''refreshToken'' := None),
                        href := ''/login'', server_state := sv2,
                        sent := sent w @ [refresh_config rt]\<rparr>)"
  proof (cases "settled (refresh_config rt) a2")
    case (Inl e)
    have "\<not> (interceptor w \<and> answered401 a2) \<longrightarrow>
             api_onRejected E (Suc n) w cfg1 resp =
               Some (Inl e,
                     w\<lparr>localStorage := (localStorage w)
                          (''accessToken'' := None, ''refreshToken'' := None),
                        href := ''/login'', server_state := sv2,
                        sent := sent w @ [refresh_config rt]\<rparr>)"
      using api_refresh_failed[OF ok unauth fresh rt renew Inl] by blast
    then show ?thesis
      by (simp only: Inl sum.case)
  next
    case (Inr r2)
    then have a2: "a2 = Response r2" and v: "validateStatus (status r2)"
      by (cases a2; simp add: settled_def split: if_splits)+
    show ?thesis
      using api_replay[OF ok unauth fresh rt renew[unfolded a2] v]
      by (simp add: Inr replayed_def)
  qed
qed

theorem api_writes_store_witness:
  "api_onRejected demo_env (Suc 0)
     (demo_world True [''accessToken'' \<mapsto> ''T1'', ''refreshToken'' \<mapsto> ''R1'']
         [Response (answer 403 [] [])])
     (post ''/strategies'' []) (Some (answer 401 [] [])) =
   Some (Inl (AxiosError (refresh_config ''R1'') (Some (answer 403 [] []))),
         (demo_world True Map.empty [])
           \<lparr>href := ''/login'', sent := [refresh_config ''R1'']\<rparr>)"
proof -
  let ?w = "demo_world True [''accessToken'' \<mapsto> ''T1'', ''refreshToken'' \<mapsto> ''R1'']
         [Response (answer 403 [] [])]"
  have h1: "storage_ok ?w" by (simp add: demo_world_def)
  have h2: "status401 (Some (answer 401 [] []))" by (simp add: answer_def)
  have h3: "\<not> retry (post ''/strategies'' [])" by (simp add: post_def)
  have h4: "localStorage ?w ''refreshToken'' = Some ''R1''" by (simp add: demo_world_def)
  have h5: "''R1'' \<noteq> []" by simp
  have h6: "server demo_env (server_state ?w) (refresh_config ''R1'') =
              (Response (answer 403 [] []), [])"
    by (simp add: demo_env_def demo_world_def)
  have h7: "\<not> (interceptor ?w \<and> answered401 (Response (answer 403 [] [])))"
    by (simp add: answer_def)
  have s: "settled (refresh_config ''R1'') (Response (answer 403 [] [])) =
             Inl (AxiosError (refresh_config ''R1'') (Some (answer 403 [] [])))"
    by (simp add: settled_def validateStatus_def answer_def)
  have "\<not> (interceptor ?w \<and> answered401 (Response (answer 403 [] []))) \<longrightarrow>
        api_onRejected demo_env (Suc 0) ?w (post ''/strategies'' []) (Some (answer 401 [] [])) =
          Some (Inl (AxiosError (refresh_config ''R1'') (Some (answer 403 [] []))),
                ?w\<lparr>localStorage := (localStorage ?w)
                       (''accessToken'' := None, ''refreshToken'' := None),
                    href := ''/login'', server_state := [],
                    sent := sent ?w @ [refresh_config ''R1'']\<rparr>)"
    using api_writes_store[OF h1 h2 h3 h4 h5 h6, of 0, THEN conjunct2]
    by (simp only: s sum.case)
  with h7
  have "api_onRejected demo_env (Suc 0) ?w (post ''/strategies'' []) (Some (answer 401 [] [])) =
          Some (Inl (AxiosError (refresh_config ''R1'') (Some (answer 403 [] []))),
                ?w\<lparr>localStorage := (localStorage ?w)
                       (''accessToken'' := None, ''refreshToken'' := None),
                    href := ''/login'', server_state := [],
                    sent := sent ?w @ [refresh_config ''R1'']\<rparr>)"
    by blast
  then show ?thesis
    by (simp add: demo_world_def)
qed

text \<open>
  The claim as the specification words it (the pipeline never writes the store) fails on a
  call that needs a refresh: the call through \<^verbatim>\<open>api\<close> replaces the stored access token
  \<open>T1\<close> by \<open>T2\<close>, and the session cells stay as they were (unauthenticated, no user), which
  a refresh by \<^verbatim>\<open>refreshAccessToken\<close> would have set.
\<close>

theorem api_writes_store_counterexample:
  "api_request demo_env (Suc (Suc 0))
     (demo_world True [''accessToken'' \<mapsto> ''T1'', ''refreshToken'' \<mapsto> ''R1'']
         [Response (answer 401 [] []), Response (answer 200 ''T2'' []),
          Response (answer 200 [] [])])
     (post ''/strategies'' []) =
   Some (Inr (answer 200 [] []),
         (demo_world True [''refreshToken'' \<mapsto> ''R1'', ''accessToken'' \<mapsto> ''T2''] [])
           \<lparr>sent := [\<lparr>url = ''/strategies'', headers = [''Authorization'' \<mapsto> ''Bearer T1''],
                        req_data = [], retry = False\<rparr>,
                     refresh_config ''R1'',
                     \<lparr>url = ''/strategies'', headers = [''Authorization'' \<mapsto> ''Bearer T2''],
                        req_data = [], retry = True\<rparr>]\<rparr>)"
  by (simp add: api_request_interceptor_def api_onRejected_begin_def getItem_def setItem_def
        axios_send_def dispatch_def demo_world_def demo_env_def post_def answer_def
        validateStatus_def refresh_config_def)

text \<open>
  C9, as the code has it. No function catches a failing storage access in order to go on
  without the store. When the browser denies storage, a call through \<^verbatim>\<open>api\<close> is rejected
  with the storage error before anything is sent, and a \<^verbatim>\<open>login\<close> that the server accepts
  still returns false: its \<^verbatim>\<open>setItem\<close> throws, the \<^verbatim>\<open>catch\<close> block records
  \<^verbatim>\<open>Login failed\<close>, and the session is not authenticated.
\<close>

theorem storage_unavailable:
  assumes denied: "\<not> storage_ok w"
  shows "api_request E (Suc n) w cfg = Some (Inl StorageUnavailable, w)
       \<and> (\<forall>r sv. server E (server_state w) (login_config email password) = (Response r, sv) \<and>
                  validateStatus (status r) \<longrightarrow>
            login E (Suc n) w email password =
              Some (False, w\<lparr>error := Some ''Login failed'', loading := False,
                             server_state := sv,
                             sent := sent w @ [login_config email password]\<rparr>))"
  using denied
  by (simp add: api_request_interceptor_def getItem_def setItem_def login_def axios_request_def
        axios_send_def dispatch_def login_config_def)

theorem storage_unavailable_witness:
  "login demo_env (Suc 0)
     (demo_world False Map.empty [Response (answer 200 ''T2'' ''R2'')]) ''a@b.com'' ''x'' =
   Some (False, (demo_world False Map.empty [])
                  \<lparr>error := Some ''Login failed'', sent := [login_config ''a@b.com'' ''x'']\<rparr>)"
proof -
  let ?w = "demo_world False Map.empty [Response (answer 200 ''T2'' ''R2'')]"
  have h1: "\<not> storage_ok ?w" by (simp add: demo_world_def)
  have h2: "server demo_env (server_state ?w) (login_config ''a@b.com'' ''x'') =
              (Response (answer 200 ''T2'' ''R2''), []) \<and>
            validateStatus (status (answer 200 ''T2'' ''R2''))"
    by (simp add: demo_env_def demo_world_def validateStatus_def answer_def)
  from storage_unavailable[OF h1, of demo_env 0 undefined "''a@b.com''" "''x''"]
  have "login demo_env (Suc 0) ?w ''a@b.com'' ''x'' =
          Some (False, ?w\<lparr>error := Some ''Login failed'', loading := False,
                          server_state := [],
                          sent := sent ?w @ [login_config ''a@b.com'' ''x'']\<rparr>)"
    using h2 by blast
  then show ?thesis
    by (simp add: demo_world_def)
qed

text \<open>
  The claim as the specification words it (login goes on in memory when the store is
  unavailable) fails: the server accepts the credentials, and \<^verbatim>\<open>login\<close> returns false and
  leaves the session unauthenticated.
\<close>

theorem storage_unavailable_counterexample:
  "login demo_env (Suc 0)
     (demo_world False Map.empty [Response (answer 200 ''T2'' ''R2'')]) ''a@b.com'' ''x'' =
   Some (False,
         \<lparr>storage_ok = False, localStorage = Map.empty, user = None, isAuthenticated = False,
          loading = False, error = Some ''Login failed'', interceptor = True, href = ''/'',
          date_now = 2000000, server_state = [],
          sent = [post ''/api/auth/login'' [(''email'', ''a@b.com''), (''password'', ''x'')]],
          pending = []\<rparr>)"
  by (simp add: login_def axios_request_def axios_send_def dispatch_def setItem_def
        demo_world_def demo_env_def post_def answer_def validateStatus_def)

section \<open>AuthProvider\<close>

lemma logout_spawn_fields [simp]:
  "localStorage (logout_spawn E w) = localStorage w"
  "storage_ok (logout_spawn E w) = storage_ok w"
  "user (logout_spawn E w) = user w"
  "isAuthenticated (logout_spawn E w) = isAuthenticated w"
  "interceptor (logout_spawn E w) = interceptor w"
  by (simp_all add: logout_spawn_def axios_send_def dispatch_def split_beta)

lemma axios_send_fields [simp]:
  "localStorage (snd (axios_send E w cfg)) = localStorage w"
  "storage_ok (snd (axios_send E w cfg)) = storage_ok w"
  "user (snd (axios_send E w cfg)) = user w"
  "isAuthenticated (snd (axios_send E w cfg)) = isAuthenticated w"
  "interceptor (snd (axios_send E w cfg)) = interceptor w"
  by (simp_all add: axios_send_def dispatch_def split_beta)

lemma refreshAccessToken_begin_store:
  assumes "refreshAccessToken_begin E w = (x, w1)"
  shows "localStorage w1 = localStorage w \<and> storage_ok w1 = storage_ok w"
proof (cases "getItem w ''refreshToken''")
  case (Inl e)
  then show ?thesis using assms by (auto simp: refreshAccessToken_begin_def)
next
  case (Inr t)
  then show ?thesis
    using assms axios_send_fields(1,2)[of E w]
    by (cases "truthy t") (auto simp: refreshAccessToken_begin_def split_beta)
qed

lemma refreshAccessToken_resume_store:
  assumes "refreshAccessToken_resume E w out = (b, w1)"
  shows "localStorage w1 ''refreshToken'' = localStorage w ''refreshToken'' \<and>
         storage_ok w1 = storage_ok w"
  using assms
  by (auto simp: refreshAccessToken_resume_def setItem_def
      split: sum.splits if_splits option.splits)


text \<open>
  Whatever the server answers and however deep the interceptor recurses: no request on the
  global axios, and no refresh, touches the stored refresh token or the availability of the
  store.
\<close>

lemma keeps_refresh_token:
  "axios_await E n w f = Some (out, w') \<Longrightarrow>
     localStorage w' ''refreshToken'' = localStorage w ''refreshToken'' \<and>
     storage_ok w' = storage_ok w"
  "auth_onRejected E n w cfg resp = Some (out, w') \<Longrightarrow>
     localStorage w' ''refreshToken'' = localStorage w ''refreshToken'' \<and>
     storage_ok w' = storage_ok w"
  "refreshAccessToken E n w = Some (b, w') \<Longrightarrow>
     localStorage w' ''refreshToken'' = localStorage w ''refreshToken'' \<and>
     storage_ok w' = storage_ok w"
proof (induction E n w f and E n w cfg resp and E n w arbitrary: out w' and out w' and b w'
       rule: axios_await_auth_onRejected_refreshAccessToken.induct)
  case (1 E w f)
  then show ?case by simp
next
  case (2 E n w cfg r icpt)
  show ?case
  proof (cases "\<not> validateStatus (status r) \<and> icpt")
    case True
    then have "auth_onRejected E n w cfg (Some r) = Some (out, w')"
      using "2.prems" by simp
    then show ?thesis using "2.IH" True by blast
  next
    case False
    then have "w' = w" using "2.prems" by (auto split: if_splits)
    then show ?thesis by simp
  qed
next
  case (3 E n w cfg icpt)
  show ?case
  proof (cases icpt)
    case True
    then have "auth_onRejected E n w cfg None = Some (out, w')"
      using "3.prems" by simp
    then show ?thesis using "3.IH" True by blast
  next
    case False
    then have "w' = w" using "3.prems" by simp
    then show ?thesis by simp
  qed
next
  case (4 E n w originalRequest resp)
  show ?case
  proof (cases "status401 resp \<and> \<not> retry originalRequest")
    case False
    then have "w' = w" using "4.prems" by auto
    then show ?thesis by simp
  next
    case c: True
    show ?thesis
    proof (cases "refreshAccessToken E n w")
      case None
      then show ?thesis using "4.prems" c by simp
    next
      case (Some x2)
      obtain success w1 where x2: "x2 = (success, w1)" by (cases x2)
      have k1: "localStorage w1 ''refreshToken'' = localStorage w ''refreshToken'' \<and>
                storage_ok w1 = storage_ok w"
        using "4.IH"(1)[OF c] Some x2 by simp
      show ?thesis
      proof (cases success)
        case False
        then have "w' = w1" using "4.prems" c Some x2 by simp
        then show ?thesis using k1 by simp
      next
        case s: True
        show ?thesis
        proof (cases "getItem w1 ''accessToken''")
          case (Inl e)
          then have "w' = w1" using "4.prems" c Some x2 s by simp
          then show ?thesis using k1 by simp
        next
          case (Inr t)
          let ?cfg = "originalRequest\<lparr>retry := True,
                        headers := (headers originalRequest)
                          (''Authorization'' \<mapsto> ''Bearer '' @ template t)\<rparr>"
          have "axios_await E n (snd (axios_send E w1 ?cfg)) (fst (axios_send E w1 ?cfg)) =
                  Some (out, w')"
            using "4.prems" c Some x2 s Inr by simp
          then have "localStorage w' ''refreshToken'' =
                       localStorage (snd (axios_send E w1 ?cfg)) ''refreshToken'' \<and>
                     storage_ok w' = storage_ok (snd (axios_send E w1 ?cfg))"
            using "4.IH"(2)[OF c Some x2[symmetric] s Inr] by blast
          then show ?thesis using k1 by simp
        qed
      qed
    qed
  qed
next
  case (5 E n w)
  obtain x w1 where bg: "refreshAccessToken_begin E w = (x, w1)"
    by (cases "refreshAccessToken_begin E w")
  have k1: "localStorage w1 = localStorage w \<and> storage_ok w1 = storage_ok w"
    using refreshAccessToken_begin_store[OF bg] .
  show ?case
  proof (cases x)
    case None
    then have "w' = w1" using "5.prems" bg by simp
    then show ?thesis using k1 by simp
  next
    case (Some f)
    show ?thesis
    proof (cases "axios_await E n w1 f")
      case None
      then show ?thesis using "5.prems" bg Some by simp
    next
      case a: (Some p)
      obtain out w2 where p: "p = (out, w2)" by (cases p)
      have k2: "localStorage w2 ''refreshToken'' = localStorage w1 ''refreshToken'' \<and>
                storage_ok w2 = storage_ok w1"
        using "5.IH"[OF bg[symmetric] Some] a p by simp
      have "refreshAccessToken_resume E w2 out = (b, w')"
        using "5.prems" bg Some a p by simp
      then show ?thesis
        using refreshAccessToken_resume_store k1 k2 by metis
    qed
  qed
qed







text \<open>
  C5. The claim holds for a refresh whose request does not pass the interceptor, or whose
  failure is not a 401: \<^verbatim>\<open>refreshAccessToken\<close> starts a logout and returns false. It fails
  when the interceptor is registered and the server rejects the refresh token with a 401:
  the interceptor takes the 401 of the refresh request for an authorization failure of an
  unmarked request and calls \<^verbatim>\<open>refreshAccessToken\<close> again. Below the server answers the
  first refresh request with 401 and the second with 403; two refresh requests and two
  logout requests have been sent when the call returns false, and the store still holds both
  tokens (the \<^verbatim>\<open>logout()\<close> calls are not awaited).
\<close>

theorem refresh_rejected_401_retried:
  "refreshAccessToken demo_env (Suc (Suc 0))
     (demo_world True [''accessToken'' \<mapsto> ''T1'', ''refreshToken'' \<mapsto> ''R1'']
        [Response (answer 401 [] []), Response (answer 403 [] []),
         Response (answer 200 [] []), Response (answer 200 [] [])]) =
   Some (False,
         \<lparr>storage_ok = True,
          localStorage = [''accessToken'' \<mapsto> ''T1'', ''refreshToken'' \<mapsto> ''R1''],
          user = None, isAuthenticated = False, loading = False, error = None,
          interceptor = True, href = ''/'', date_now = 2000000, server_state = [],
          sent = [post ''/api/auth/refresh'' [(''refresh_token'', ''R1'')],
                  post ''/api/auth/refresh'' [(''refresh_token'', ''R1'')],
                  post ''/api/auth/logout'' [],
                  post ''/api/auth/logout'' []],
          pending = [InFlight (post ''/api/auth/logout'' []) (Response (answer 200 [] [])) True,
                     InFlight (post ''/api/auth/logout'' []) (Response (answer 200 [] [])) True]\<rparr>)"
  by (simp add: refreshAccessToken_begin_def refreshAccessToken_resume_def logout_spawn_def
        getItem_def axios_send_def dispatch_def demo_world_def demo_env_def
        post_def answer_def validateStatus_def)

text \<open>
  With a server that answers every request with a 401 the recursion has no end: whatever
  the fuel, the refresh has not returned, so the store is never cleared.
\<close>

lemma refresh_rejected_401_never_returns:
  assumes "\<forall>sv cfg. \<exists>r sv'. server E sv cfg = (Response r, sv') \<and> status r = 401"
    and "storage_ok w" and "truthy (localStorage w ''refreshToken'')" and "interceptor w"
  shows "refreshAccessToken E n w = None"
  using assms(2-)
proof (induction n arbitrary: w)
  case 0
  then show ?case
    by (simp add: refreshAccessToken_begin_def getItem_def split_beta)
next
  case (Suc n)
  let ?cfg = "post ''/api/auth/refresh''
                [(''refresh_token'', template (localStorage w ''refreshToken''))]"
  obtain r sv where a: "server E (server_state w) ?cfg = (Response r, sv)" "status r = 401"
    using assms(1) by blast
  let ?w1 = "w\<lparr>server_state := sv, sent := sent w @ [?cfg]\<rparr>"
  have b: "refreshAccessToken_begin E w = (Some (InFlight ?cfg (Response r) True), ?w1)"
    using Suc.prems a(1)
    by (simp add: refreshAccessToken_begin_def getItem_def axios_send_def dispatch_def)
  have "refreshAccessToken E n ?w1 = None"
    using Suc.prems by (intro Suc.IH) simp_all
  then show ?case
    using b a(2) by (simp add: validateStatus_def post_def)
qed

text \<open>
  C7. The claim holds for a login whose failure is not a 401. A 401 passes the interceptor,
  which refreshes and replays on any 401 of the global axios, the login request included.
  Below the store holds a pair, the server answers the login with 401, the refresh with a
  new token \<open>T2\<close> and the replayed login with 401: \<^verbatim>\<open>login\<close> returns false with its
  message, but the login request was sent twice, the stored access token is now \<open>T2\<close>, and
  the session is authenticated as the user of \<open>T2\<close>.
\<close>

theorem login_401_refreshes:
  "login demo_env (Suc (Suc 0))
     (demo_world True [''accessToken'' \<mapsto> ''T1'', ''refreshToken'' \<mapsto> ''R1'']
        [Response (answer 401 [] []), Response (answer 200 ''T2'' []),
         Response (answer 401 [] [])])
     ''a@b.com'' ''wrong'' =
   Some (False,
         \<lparr>storage_ok = True,
          localStorage = [''refreshToken'' \<mapsto> ''R1'', ''accessToken'' \<mapsto> ''T2''],
          user = Some \<lparr>user_id = ''1'', user_email = ''a@b.com'', user_name = ''A2''\<rparr>,
          isAuthenticated = True, loading = False, error = Some ''Login failed'',
          interceptor = True, href = ''/'', date_now = 2000000, server_state = [],
          sent = [post ''/api/auth/login'' [(''email'', ''a@b.com''), (''password'', ''wrong'')],
                  post ''/api/auth/refresh'' [(''refresh_token'', ''R1'')],
                  \<lparr>url = ''/api/auth/login'', headers = [''Authorization'' \<mapsto> ''Bearer T2''],
                     req_data = [(''email'', ''a@b.com''), (''password'', ''wrong'')],
                     retry = True\<rparr>],
          pending = []\<rparr>)"
  by (simp add: login_def axios_request_def refreshAccessToken_begin_def
        refreshAccessToken_resume_def getItem_def setItem_def axios_send_def dispatch_def
        demo_world_def demo_env_def demo_decode_def post_def answer_def validateStatus_def)

text \<open>When the answer to a logout request has been processed, the store is cleared.\<close>

lemma logout_resume_clears:
  assumes "storage_ok w" and "\<not> (icpt \<and> answered401 a)"
  shows "logout_resume E (Suc n) w (InFlight cfg a icpt) =
           Some (Inr (), w\<lparr>localStorage := cleared (localStorage w),
                           user := None, isAuthenticated := False\<rparr>)"
  using assms(1)
  by (simp add: logout_resume_def axios_await_direct[OF assms(2)] logout_finally_def
        removeItem_def cleared_def)

text \<open>
  Whenever a \<^verbatim>\<open>logout\<close> call is through, whatever the server answered and whatever the
  interceptor did with the answer, the store holds neither token and the session is
  unauthenticated.
\<close>

lemma logout_resume_always_clears:
  assumes "storage_ok w" and "logout_resume E n w f = Some (res, w')"
  shows "res = Inr () \<and> localStorage w' ''accessToken'' = None \<and>
         localStorage w' ''refreshToken'' = None \<and> user w' = None \<and> \<not> isAuthenticated w'"
proof (cases "axios_await E n w f")
  case None
  then show ?thesis using assms(2) by (simp add: logout_resume_def)
next
  case (Some p)
  obtain out w1 where p: "p = (out, w1)" by (cases p)
  have "storage_ok w1"
    using keeps_refresh_token(1)[of E n w f out w1] Some p assms(1) by simp
  moreover have "logout_finally w1 = (res, w')"
    using assms(2) Some p by (simp add: logout_resume_def)
  ultimately show ?thesis
    by (auto simp: logout_finally_def removeItem_def)
qed

section \<open>Start-up\<close>

lemma mount_no_pair:
  assumes "storage_ok w0"
    and "\<not> truthy (localStorage w0 ''accessToken'') \<or> \<not> truthy (localStorage w0 ''refreshToken'')"
  shows "AuthProvider_mount E n w0 = Some (mounted w0)"
  using assms
  by (auto simp: AuthProvider_mount_def initAuth_begin_def getItem_def mounted_def)

lemma mount_valid:
  assumes "storage_ok w0"
    and "localStorage w0 ''accessToken'' = Some tk" "tk \<noteq> []"
    and "localStorage w0 ''refreshToken'' = Some rt" "rt \<noteq> []"
    and "jwt_decode E tk = Some decoded"
    and "\<not> real_of_int (claim_exp decoded) < real_of_int (date_now w0) / 1000"
  shows "AuthProvider_mount E n w0 =
           Some ((mounted w0)\<lparr>user := Some (user_of decoded), isAuthenticated := True\<rparr>)"
  using assms
  by (simp add: AuthProvider_mount_def initAuth_begin_def getItem_def mounted_def user_of_def)

text \<open>The expired case up to the \<^verbatim>\<open>await\<close>: the refresh request leaves without the interceptor.\<close>

lemma initAuth_begin_expired:
  assumes "storage_ok w"
    and "localStorage w ''accessToken'' = Some tk" "tk \<noteq> []"
    and "localStorage w ''refreshToken'' = Some rt" "rt \<noteq> []"
    and "jwt_decode E tk = Some decoded"
    and "real_of_int (claim_exp decoded) < real_of_int (date_now w) / 1000"
    and "server E (server_state w) (refresh_config rt) = (a, sv)"
  shows "initAuth_begin E w =
           (Some (InFlight (refresh_config rt) a (interceptor w)),
            w\<lparr>server_state := sv, sent := sent w @ [refresh_config rt]\<rparr>)"
  using assms
  by (simp add: initAuth_begin_def refreshAccessToken_begin_def getItem_def axios_send_def
        dispatch_def refresh_config_def)

lemma mount_renewed:
  assumes "storage_ok w0"
    and "localStorage w0 ''accessToken'' = Some tk" "tk \<noteq> []"
    and "localStorage w0 ''refreshToken'' = Some rt" "rt \<noteq> []"
    and "jwt_decode E tk = Some decoded"
    and "real_of_int (claim_exp decoded) < real_of_int (date_now w0) / 1000"
    and "server E (server_state w0) (refresh_config rt) = (Response r, sv)"
    and "validateStatus (status r)"
    and "jwt_decode E (access_token (data r)) = Some renewed"
  shows "AuthProvider_mount E (Suc n) w0 =
           Some ((mounted w0)
                   \<lparr>localStorage := (localStorage w0)(''accessToken'' \<mapsto> access_token (data r)),
                    user := Some (user_of renewed), isAuthenticated := True,
                    server_state := sv, sent := sent w0 @ [refresh_config rt]\<rparr>)"
proof -
  let ?w = "w0\<lparr>user := None, isAuthenticated := False, loading := True, error := None,
               interceptor := False\<rparr>"
  have b: "initAuth_begin E ?w =
             (Some (InFlight (refresh_config rt) (Response r) (interceptor ?w)),
              ?w\<lparr>server_state := sv, sent := sent ?w @ [refresh_config rt]\<rparr>)"
    by (rule initAuth_begin_expired[where tk = tk and decoded = decoded]) (use assms in simp_all)
  show ?thesis
    using assms(1,9,10)
    by (simp add: AuthProvider_mount_def b initAuth_resume_def refreshAccessToken_resume_def
          setItem_def mounted_def user_of_def)
qed

lemma mount_renewal_failed:
  assumes "storage_ok w0"
    and "localStorage w0 ''accessToken'' = Some tk" "tk \<noteq> []"
    and "localStorage w0 ''refreshToken'' = Some rt" "rt \<noteq> []"
    and "jwt_decode E tk = Some decoded"
    and "real_of_int (claim_exp decoded) < real_of_int (date_now w0) / 1000"
    and "server E (server_state w0) (refresh_config rt) = (a, sv)"
    and "settled (refresh_config rt) a = Inl e"
    and "server E sv logout_config = (a', sv')"
  shows "AuthProvider_mount E (Suc n) w0 =
           Some ((mounted w0)
                   \<lparr>server_state := sv', sent := sent w0 @ [refresh_config rt, logout_config],
                    pending := pending w0 @ [InFlight logout_config a' True]\<rparr>)"
proof -
  let ?w = "w0\<lparr>user := None, isAuthenticated := False, loading := True, error := None,
               interceptor := False\<rparr>"
  let ?w1 = "?w\<lparr>server_state := sv, sent := sent ?w @ [refresh_config rt]\<rparr>"
  have b: "initAuth_begin E ?w = (Some (InFlight (refresh_config rt) a (interceptor ?w)), ?w1)"
    by (rule initAuth_begin_expired[where tk = tk and decoded = decoded]) (use assms in simp_all)
  have s: "\<And>W. axios_await E (Suc n) W (InFlight (refresh_config rt) a False) = Some (Inl e, W)"
    using axios_await_direct[of False a E n _ "refresh_config rt"] assms(9) by simp
  show ?thesis
    using assms(10)
    by (simp add: AuthProvider_mount_def b s initAuth_resume_def refreshAccessToken_resume_def
          logout_spawn_def axios_send_def dispatch_def mounted_def logout_config_def)
qed

lemma run_pending_single:
  assumes "storage_ok w" and "pending w = [InFlight cfg a icpt]" and "\<not> (icpt \<and> answered401 a)"
  shows "run_pending E (Suc (Suc n)) w =
           Some (w\<lparr>pending := [], localStorage := cleared (localStorage w),
                   user := None, isAuthenticated := False\<rparr>)"
  using assms(1,2) logout_resume_clears[of "w\<lparr>pending := []\<rparr>" icpt a E n cfg, OF _ assms(3)]
  by simp

text \<open>
  C6, as the code has it. Mounting \<^verbatim>\<open>AuthProvider\<close> with a readable store resolves the
  session as follows. If one of the two tokens is missing, nothing is sent and the session
  is unauthenticated. If both are stored and the access token decodes: when its expiry is
  not before the clock, the session is authenticated with the decoded claims; when it is,
  exactly one refresh request is sent. If that request succeeds and the new token decodes,
  the new token is stored and the session is authenticated with the new claims. If it
  fails, \<^verbatim>\<open>initAuth\<close> ends with the session unauthenticated and a logout request sent, but
  with both tokens still in the store: \<^verbatim>\<open>logout()\<close> is not awaited. The store is cleared
  when that \<^verbatim>\<open>logout\<close> call is through: whenever it is through, in whatever state its
  answer arrives, the store holds neither token and the session is unauthenticated; and it
  is through as soon as its answer arrives when that answer is not a 401. A 401 answer
  passes the interceptor, which is registered by then and refreshes again, so that the call
  need not come to an end.
\<close>

theorem mount_resolves:
  assumes ok: "storage_ok w0"
  shows "(\<not> truthy (localStorage w0 ''accessToken'') \<or> \<not> truthy (localStorage w0 ''refreshToken'') \<longrightarrow>
            AuthProvider_mount E n w0 = Some (mounted w0))
       \<and> (localStorage w0 ''accessToken'' = Some tk \<and> tk \<noteq> [] \<and>
          localStorage w0 ''refreshToken'' = Some rt \<and> rt \<noteq> [] \<and>
          jwt_decode E tk = Some decoded \<longrightarrow>
          (if real_of_int (claim_exp decoded) < real_of_int (date_now w0) / 1000 then
             \<forall>a sv. server E (server_state w0) (refresh_config rt) = (a, sv) \<longrightarrow>
               (case settled (refresh_config rt) a of
                  Inr r \<Rightarrow>
                    \<forall>renewed. jwt_decode E (access_token (data r)) = Some renewed \<longrightarrow>
                      AuthProvider_mount E (Suc n) w0 =
                        Some ((mounted w0)
                          \<lparr>localStorage := (localStorage w0)
                              (''accessToken'' \<mapsto> access_token (data r)),
                           user := Some (user_of renewed), isAuthenticated := True,
                           server_state := sv, sent := sent w0 @ [refresh_config rt]\<rparr>)
                | Inl e \<Rightarrow>
                     \<forall>a' sv'. server E sv logout_config = (a', sv') \<longrightarrow>
                      AuthProvider_mount E (Suc n) w0 =
                        Some ((mounted w0)
                          \<lparr>server_state := sv',
                           sent := sent w0 @ [refresh_config rt, logout_config],
                           pending := pending w0 @ [InFlight logout_config a' True]\<rparr>) \<and>
                      (\<forall>W m res W'.
                         storage_ok W \<and>
                         logout_resume E m W (InFlight logout_config a' True) = Some (res, W') \<longrightarrow>
                         localStorage W' ''accessToken'' = None \<and> localStorage W' ''refreshToken'' = None \<and>
                         user W' = None \<and> \<not> isAuthenticated W') \<and>
                      (\<not> answered401 a' \<longrightarrow>
                         (\<forall>W. storage_ok W \<longrightarrow>
                            logout_resume E (Suc n) W (InFlight logout_config a' True) =
                              Some (Inr (), W\<lparr>localStorage := cleared (localStorage W),
                                              user := None, isAuthenticated := False\<rparr>))))
           else
             AuthProvider_mount E n w0 =
               Some ((mounted w0)\<lparr>user := Some (user_of decoded), isAuthenticated := True\<rparr>)))"
proof (intro conjI impI)
  assume "\<not> truthy (localStorage w0 ''accessToken'') \<or> \<not> truthy (localStorage w0 ''refreshToken'')"
  then show "AuthProvider_mount E n w0 = Some (mounted w0)"
    using ok by (intro mount_no_pair)
next
  assume h: "localStorage w0 ''accessToken'' = Some tk \<and> tk \<noteq> [] \<and>
          localStorage w0 ''refreshToken'' = Some rt \<and> rt \<noteq> [] \<and>
          jwt_decode E tk = Some decoded"
  then have p: "localStorage w0 ''accessToken'' = Some tk" "tk \<noteq> []"
    "localStorage w0 ''refreshToken'' = Some rt" "rt \<noteq> []" "jwt_decode E tk = Some decoded"
    by blast+
  show "if real_of_int (claim_exp decoded) < real_of_int (date_now w0) / 1000 then
           \<forall>a sv. server E (server_state w0) (refresh_config rt) = (a, sv) \<longrightarrow>
             (case settled (refresh_config rt) a of
                Inr r \<Rightarrow>
                  \<forall>renewed. jwt_decode E (access_token (data r)) = Some renewed \<longrightarrow>
                    AuthProvider_mount E (Suc n) w0 =
                      Some ((mounted w0)
                        \<lparr>localStorage := (localStorage w0)
                            (''accessToken'' \<mapsto> access_token (data r)),
                         user := Some (user_of renewed), isAuthenticated := True,
                         server_state := sv, sent := sent w0 @ [refresh_config rt]\<rparr>)
              | Inl e \<Rightarrow>
                   \<forall>a' sv'. server E sv logout_config = (a', sv') \<longrightarrow>
                    AuthProvider_mount E (Suc n) w0 =
                      Some ((mounted w0)
                        \<lparr>server_state := sv',
                         sent := sent w0 @ [refresh_config rt, logout_config],
                         pending := pending w0 @ [InFlight logout_config a' True]\<rparr>) \<and>
                    (\<forall>W m res W'.
                       storage_ok W \<and>
                       logout_resume E m W (InFlight logout_config a' True) = Some (res, W') \<longrightarrow>
                       localStorage W' ''accessToken'' = None \<and> localStorage W' ''refreshToken'' = None \<and>
                       user W' = None \<and> \<not> isAuthenticated W') \<and>
                    (\<not> answered401 a' \<longrightarrow>
                       (\<forall>W. storage_ok W \<longrightarrow>
                          logout_resume E (Suc n) W (InFlight logout_config a' True) =
                            Some (Inr (), W\<lparr>localStorage := cleared (localStorage W),
                                            user := None, isAuthenticated := False\<rparr>))))
         else
           AuthProvider_mount E n w0 =
             Some ((mounted w0)\<lparr>user := Some (user_of decoded), isAuthenticated := True\<rparr>)"
  proof (cases "real_of_int (claim_exp decoded) < real_of_int (date_now w0) / 1000")
    case False
    then show ?thesis
      using mount_valid[OF ok p False] by simp
  next
    case expired: True
    have "case settled (refresh_config rt) a of
             Inr r \<Rightarrow>
               \<forall>renewed. jwt_decode E (access_token (data r)) = Some renewed \<longrightarrow>
                 AuthProvider_mount E (Suc n) w0 =
                   Some ((mounted w0)
                     \<lparr>localStorage := (localStorage w0)
                         (''accessToken'' \<mapsto> access_token (data r)),
                      user := Some (user_of renewed), isAuthenticated := True,
                      server_state := sv, sent := sent w0 @ [refresh_config rt]\<rparr>)
           | Inl e \<Rightarrow>
                \<forall>a' sv'. server E sv logout_config = (a', sv') \<longrightarrow>
                 AuthProvider_mount E (Suc n) w0 =
                   Some ((mounted w0)
                     \<lparr>server_state := sv',
                      sent := sent w0 @ [refresh_config rt, logout_config],
                      pending := pending w0 @ [InFlight logout_config a' True]\<rparr>) \<and>
                 (\<forall>W m res W'.
                    storage_ok W \<and>
                    logout_resume E m W (InFlight logout_config a' True) = Some (res, W') \<longrightarrow>
                    localStorage W' ''accessToken'' = None \<and> localStorage W' ''refreshToken'' = None \<and>
                    user W' = None \<and> \<not> isAuthenticated W') \<and>
                 (\<not> answered401 a' \<longrightarrow>
                    (\<forall>W. storage_ok W \<longrightarrow>
                       logout_resume E (Suc n) W (InFlight logout_config a' True) =
                         Some (Inr (), W\<lparr>localStorage := cleared (localStorage W),
                                         user := None, isAuthenticated := False\<rparr>)))"
      if srv: "server E (server_state w0) (refresh_config rt) = (a, sv)" for a sv
    proof (cases "settled (refresh_config rt) a")
      case (Inr r)
      then have a: "a = Response r" and v: "validateStatus (status r)"
        by (cases a; simp add: settled_def split: if_splits)+
      show ?thesis
        using mount_renewed[OF ok p expired srv[unfolded a] v] by (simp add: Inr)
    next
      case (Inl e)
      have "AuthProvider_mount E (Suc n) w0 =
              Some ((mounted w0)
                \<lparr>server_state := sv',
                 sent := sent w0 @ [refresh_config rt, logout_config],
                 pending := pending w0 @ [InFlight logout_config a' True]\<rparr>)"
        if "server E sv logout_config = (a', sv')" for a' sv'
        using mount_renewal_failed[OF ok p expired srv Inl that] .
      moreover have "\<forall>W m res W'.
               storage_ok W \<and>
               logout_resume E m W (InFlight logout_config a' True) = Some (res, W') \<longrightarrow>
               localStorage W' ''accessToken'' = None \<and> localStorage W' ''refreshToken'' = None \<and>
               user W' = None \<and> \<not> isAuthenticated W'" for a'
        using logout_resume_always_clears by blast
      moreover have "\<not> answered401 a' \<longrightarrow>
               (\<forall>W. storage_ok W \<longrightarrow>
                  logout_resume E (Suc n) W (InFlight logout_config a' True) =
                    Some (Inr (), W\<lparr>localStorage := cleared (localStorage W),
                                    user := None, isAuthenticated := False\<rparr>))" for a'
        using logout_resume_clears[where icpt = True and a = a'] by blast
      ultimately show ?thesis
        by (simp only: Inl sum.case) blast
    qed
    then show ?thesis
      using expired by simp
  qed
qed

theorem mount_resolves_witness:
  "AuthProvider_mount demo_env (Suc 0)
     (demo_world True [''accessToken'' \<mapsto> ''T1'', ''refreshToken'' \<mapsto> ''R1'']
        [Response (answer 403 [] []), Response (answer 200 [] [])]) =
     Some ((demo_world True [''accessToken'' \<mapsto> ''T1'', ''refreshToken'' \<mapsto> ''R1''] [])
             \<lparr>sent := [refresh_config ''R1'', logout_config],
              pending := [InFlight logout_config (Response (answer 200 [] [])) True]\<rparr>)
 \<and> logout_resume demo_env (Suc 0)
     ((demo_world True [''accessToken'' \<mapsto> ''T1'', ''refreshToken'' \<mapsto> ''R1''] [])
             \<lparr>sent := [refresh_config ''R1'', logout_config]\<rparr>)
     (InFlight logout_config (Response (answer 200 [] [])) True) =
     Some (Inr (),
           (demo_world True Map.empty [])\<lparr>sent := [refresh_config ''R1'', logout_config]\<rparr>)"
proof -
  let ?w = "demo_world True [''accessToken'' \<mapsto> ''T1'', ''refreshToken'' \<mapsto> ''R1'']
        [Response (answer 403 [] []), Response (answer 200 [] [])]"
  let ?w1 = "(demo_world True [''accessToken'' \<mapsto> ''T1'', ''refreshToken'' \<mapsto> ''R1''] [])
             \<lparr>sent := [refresh_config ''R1'', logout_config]\<rparr>"
  let ?d = "\<lparr>claim_sub = ''1'', claim_email = ''a@b.com'', claim_name = ''A'', claim_exp = 1000\<rparr>"
  have h1: "storage_ok ?w" by (simp add: demo_world_def)
  have h2: "localStorage ?w ''accessToken'' = Some ''T1'' \<and> ''T1'' \<noteq> [] \<and>
          localStorage ?w ''refreshToken'' = Some ''R1'' \<and> ''R1'' \<noteq> [] \<and>
          jwt_decode demo_env ''T1'' = Some ?d"
    by (simp add: demo_world_def demo_env_def demo_decode_def)
  have h3: "real_of_int (claim_exp ?d) < real_of_int (date_now ?w) / 1000"
    by (simp add: demo_world_def)
  have h4: "server demo_env (server_state ?w) (refresh_config ''R1'') =
              (Response (answer 403 [] []), [Response (answer 200 [] [])])"
    by (simp add: demo_world_def demo_env_def)
  have h5: "settled (refresh_config ''R1'') (Response (answer 403 [] [])) =
              Inl (AxiosError (refresh_config ''R1'') (Some (answer 403 [] [])))"
    by (simp add: settled_def validateStatus_def answer_def)
  have h6: "server demo_env [Response (answer 200 [] [])] logout_config =
              (Response (answer 200 [] []), [])"
    by (simp add: demo_env_def)
  have h7: "\<not> answered401 (Response (answer 200 [] []))"
    by (simp add: answer_def)
  have h8: "storage_ok ?w1" by (simp add: demo_world_def)
  note t1 = mount_resolves[OF h1, where tk = "''T1''" and rt = "''R1''" and E = demo_env
              and decoded = ?d and n = 0, THEN conjunct2, THEN mp, OF h2]
  note t2 = t1[unfolded if_P[OF h3], rule_format, OF h4]
  note t3 = t2[unfolded h5 sum.case, rule_format, OF h6]
  have r1: "AuthProvider_mount demo_env (Suc 0) ?w =
              Some ((mounted ?w)
                \<lparr>server_state := [],
                 sent := sent ?w @ [refresh_config ''R1'', logout_config],
                 pending := pending ?w @
                   [InFlight logout_config (Response (answer 200 [] [])) True]\<rparr>)"
    using t3 by (rule conjunct1)
  have r2: "logout_resume demo_env (Suc 0) ?w1
              (InFlight logout_config (Response (answer 200 [] [])) True) =
              Some (Inr (), ?w1\<lparr>localStorage := cleared (localStorage ?w1),
                                user := None, isAuthenticated := False\<rparr>)"
    using t3[THEN conjunct2, THEN conjunct2, rule_format, OF h7 h8] .
  have e1: "(mounted ?w)\<lparr>server_state := [],
                 sent := sent ?w @ [refresh_config ''R1'', logout_config],
                 pending := pending ?w @
                   [InFlight logout_config (Response (answer 200 [] [])) True]\<rparr> =
            (demo_world True [''accessToken'' \<mapsto> ''T1'', ''refreshToken'' \<mapsto> ''R1''] [])
             \<lparr>sent := [refresh_config ''R1'', logout_config],
              pending := [InFlight logout_config (Response (answer 200 [] [])) True]\<rparr>"
    by (simp add: mounted_def demo_world_def)
  have e2: "?w1\<lparr>localStorage := cleared (localStorage ?w1),
                 user := None, isAuthenticated := False\<rparr> =
            (demo_world True Map.empty [])\<lparr>sent := [refresh_config ''R1'', logout_config]\<rparr>"
    by (simp add: demo_world_def cleared_def)
  show ?thesis
    using r1 r2 unfolding e1 e2 by (rule conjI)
qed

text \<open>
  The claim as the specification words it has the store cleared when the renewal at start-up
  fails. Here the refresh is rejected with a 403: when \<^verbatim>\<open>initAuth\<close> has ended (\<^verbatim>\<open>loading\<close>
  is false), the session is unauthenticated, the logout request is still in flight, and
  both tokens are still in the store.
\<close>

theorem mount_store_counterexample:
  "AuthProvider_mount demo_env (Suc 0)
     (demo_world True [''accessToken'' \<mapsto> ''T1'', ''refreshToken'' \<mapsto> ''R1'']
        [Response (answer 403 [] []), Response (answer 200 [] [])]) =
   Some \<lparr>storage_ok = True,
         localStorage = [''accessToken'' \<mapsto> ''T1'', ''refreshToken'' \<mapsto> ''R1''],
         user = None, isAuthenticated = False, loading = False, error = None,
         interceptor = True, href = ''/'', date_now = 2000000, server_state = [],
         sent = [post ''/api/auth/refresh'' [(''refresh_token'', ''R1'')],
                 post ''/api/auth/logout'' []],
         pending = [InFlight (post ''/api/auth/logout'' []) (Response (answer 200 [] [])) True]\<rparr>"
  by (simp add: AuthProvider_mount_def initAuth_begin_def initAuth_resume_def
        refreshAccessToken_begin_def refreshAccessToken_resume_def logout_spawn_def
        getItem_def axios_send_def dispatch_def demo_world_def demo_env_def demo_decode_def
        post_def answer_def validateStatus_def)

section \<open>Failures away from the interceptor\<close>

text \<open>
  What \<^verbatim>\<open>refreshAccessToken\<close> and \<^verbatim>\<open>login\<close> do on a failure that the interceptor does not
  pick up (the request was created without it, or the answer is not a 401): the refresh
  starts a logout and returns false, the login records its message and returns false, and
  neither sends anything else.
\<close>

lemma refresh_failed_direct:
  assumes "storage_ok w"
    and "localStorage w ''refreshToken'' = Some rt" "rt \<noteq> []"
    and "server E (server_state w) (refresh_config rt) = (a, sv)"
    and "settled (refresh_config rt) a = Inl e"
    and "\<not> (interceptor w \<and> answered401 a)"
    and "server E sv logout_config = (a', sv')"
  shows "refreshAccessToken E (Suc n) w =
           Some (False,
                 w\<lparr>server_state := sv',
                    sent := sent w @ [refresh_config rt, logout_config],
                    pending := pending w @ [InFlight logout_config a' (interceptor w)]\<rparr>)"
proof -
  let ?w1 = "w\<lparr>server_state := sv, sent := sent w @ [refresh_config rt]\<rparr>"
  have b: "refreshAccessToken_begin E w =
             (Some (InFlight (refresh_config rt) a (interceptor w)), ?w1)"
    using assms(1-4)
    by (simp add: refreshAccessToken_begin_def getItem_def axios_send_def dispatch_def
          refresh_config_def)
  have s: "axios_await E (Suc n) ?w1 (InFlight (refresh_config rt) a (interceptor w)) =
             Some (Inl e, ?w1)"
    by (simp add: axios_await_direct[OF assms(6)] assms(5))
  show ?thesis
    using assms(7)
    by (simp add: b s refreshAccessToken_resume_def logout_spawn_def axios_send_def
          dispatch_def logout_config_def)
qed

lemma login_failed_direct:
  assumes "server E (server_state w) (login_config email password) = (a, sv)"
    and "settled (login_config email password) a = Inl e"
    and "\<not> (interceptor w \<and> answered401 a)"
  shows "login E (Suc n) w email password =
           Some (False,
                 w\<lparr>error := Some (error_message e ''Login failed''), loading := False,
                    server_state := sv,
                    sent := sent w @ [login_config email password]\<rparr>)"
proof -
  have s: "\<And>W. axios_await E (Suc n) W (InFlight (login_config email password) a (interceptor w)) =
             Some (Inl e, W)"
    by (simp add: axios_await_direct[OF assms(3)] assms(2))
  show ?thesis
    using assms(1)
    by (simp add: login_def axios_request_def axios_send_def dispatch_def s
          login_config_def[symmetric])
qed

lemma login_accepted:
  assumes "storage_ok w"
    and "server E (server_state w) (login_config email password) = (Response r, sv)"
    and "validateStatus (status r)"
  shows "login E (Suc n) w email password =
           Some (True,
                 w\<lparr>localStorage := (localStorage w)
                      (''accessToken'' \<mapsto> access_token (data r),
                       ''refreshToken'' \<mapsto> refresh_token (data r)),
                    user := body_user (data r), isAuthenticated := True,
                    error := None, loading := False,
                    server_state := sv,
                    sent := sent w @ [login_config email password]\<rparr>)"
  using assms
  by (simp add: login_def axios_request_def axios_send_def dispatch_def setItem_def
        login_config_def[symmetric])


end
